theory Spec2Isabelle
  imports Main
begin

section \<open>JavaScript values\<close>

text \<open>
  The program is one script, \<^verbatim>\<open>app.js\<close>. Every payload it handles is the result of
  \<^verbatim>\<open>res.json()\<close>, so a value is a JSON value, or \<^verbatim>\<open>undefined\<close> (a property that
  is not there). Numbers are the doubles that are integers of a magnitude below
  \<open>2 ^ 53\<close> (the rates are whole dollars), with the three special values; fractions
  are outside the model, and so is the difference between \<^verbatim>\<open>0\<close> and \<^verbatim>\<open>-0\<close>, which
  no operation of the script observes. An object is the list of its own properties, a
  name bound once.
\<close>

datatype jsnum = Fin int | PosInfinity | NegInfinity | NaN

datatype jsval =
    JUndefined
  | JNull
  | JBool bool
  | JNum jsnum
  | JStr string
  | JArr "jsval list"
  | JObj "(string \<times> jsval) list"

text \<open>
  What the script can throw: \<^verbatim>\<open>new Error(message)\<close>, and the engine's own errors:
  the TypeError of a property read on \<^verbatim>\<open>null\<close> or \<^verbatim>\<open>undefined\<close>, of a call of
  what is no function and of a failed conversion; the SyntaxError of \<^verbatim>\<open>res.json()\<close>
  on a body that is not JSON; the error a \<^verbatim>\<open>fetch\<close> rejects with when the network
  fails.
\<close>

datatype error = Error string | TypeError | SyntaxError | NetworkError

definition bindE :: "error + 'a \<Rightarrow> ('a \<Rightarrow> error + 'b) \<Rightarrow> error + 'b" where
  "bindE m f = (case m of Inl e \<Rightarrow> Inl e | Inr v \<Rightarrow> f v)"

fun mapE :: "('a \<Rightarrow> error + 'b) \<Rightarrow> 'a list \<Rightarrow> error + 'b list" where
  "mapE f [] = Inr []"
| "mapE f (x # xs) = bindE (f x) (\<lambda>y. bindE (mapE f xs) (\<lambda>ys. Inr (y # ys)))"

text \<open>Truthiness, as \<^verbatim>\<open>if (v)\<close>, \<^verbatim>\<open>!v\<close>, \<^verbatim>\<open>a || b\<close> and \<^verbatim>\<open>a && b\<close> test it.\<close>

fun truthy :: "jsval \<Rightarrow> bool" where
  "truthy JUndefined = False"
| "truthy JNull = False"
| "truthy (JBool b) = b"
| "truthy (JNum n) = (n \<noteq> Fin 0 \<and> n \<noteq> NaN)"
| "truthy (JStr s) = (s \<noteq> [])"
| "truthy (JArr xs) = True"
| "truthy (JObj kvs) = True"

definition orElse :: "jsval \<Rightarrow> jsval \<Rightarrow> jsval" where
  "orElse a b = (if truthy a then a else b)"

fun isArray :: "jsval \<Rightarrow> bool" where
  "isArray (JArr xs) = True"
| "isArray v = False"

fun isNullish :: "jsval \<Rightarrow> bool" where
  "isNullish JUndefined = True"
| "isNullish JNull = True"
| "isNullish v = False"

text \<open>
  \<^verbatim>\<open>v.name\<close>, for the names the script reads (\<^verbatim>\<open>rate\<close>, \<^verbatim>\<open>meals\<close>, \<^verbatim>\<open>months\<close>,
  \<^verbatim>\<open>month\<close>, \<^verbatim>\<open>value\<close>, \<^verbatim>\<open>rates\<close>, \<^verbatim>\<open>elements\<close>, \<^verbatim>\<open>tags\<close>, \<^verbatim>\<open>postal_code\<close>,
  \<^verbatim>\<open>geometry\<close>, \<^verbatim>\<open>address\<close>, \<^verbatim>\<open>postcode\<close>, \<^verbatim>\<open>geojson\<close>, \<^verbatim>\<open>lat\<close>, \<^verbatim>\<open>lon\<close>,
  \<^verbatim>\<open>display_name\<close>): no prototype defines any of them, so an object answers with its
  own property or \<^verbatim>\<open>undefined\<close>, every other value but \<^verbatim>\<open>null\<close> and \<^verbatim>\<open>undefined\<close>
  answers \<^verbatim>\<open>undefined\<close>, and reading a property of \<^verbatim>\<open>null\<close> or \<^verbatim>\<open>undefined\<close> throws a
  TypeError. (\<^verbatim>\<open>length\<close> is read by \<open>lengthOf\<close> below.)
\<close>

fun getProp :: "jsval \<Rightarrow> string \<Rightarrow> error + jsval" where
  "getProp JUndefined name = Inl TypeError"
| "getProp JNull name = Inl TypeError"
| "getProp (JObj kvs) name = Inr (case map_of kvs name of Some v \<Rightarrow> v | None \<Rightarrow> JUndefined)"
| "getProp v name = Inr JUndefined"

text \<open>\<^verbatim>\<open>v?.name\<close>: \<^verbatim>\<open>undefined\<close> when \<^verbatim>\<open>v\<close> is \<^verbatim>\<open>null\<close> or \<^verbatim>\<open>undefined\<close>.\<close>

definition getPropOpt :: "jsval \<Rightarrow> string \<Rightarrow> jsval" where
  "getPropOpt v name = (case getProp v name of Inl e \<Rightarrow> JUndefined | Inr w \<Rightarrow> w)"

subsection \<open>Conversion to text and to number\<close>

fun digitsOf :: "nat \<Rightarrow> string" where
  "digitsOf n =
     (if n < 10 then [''0123456789'' ! n]
      else digitsOf (n div 10) @ [''0123456789'' ! (n mod 10)])"

declare digitsOf.simps [simp del]

fun numToString :: "jsnum \<Rightarrow> string" where
  "numToString (Fin i) = (if i < 0 then ''-'' @ digitsOf (nat (- i)) else digitsOf (nat i))"
| "numToString PosInfinity = ''Infinity''"
| "numToString NegInfinity = ''-Infinity''"
| "numToString NaN = ''NaN''"

fun joinE :: "(error + string) list \<Rightarrow> error + string" where
  "joinE [] = Inr []"
| "joinE [p] = p"
| "joinE (p # ps) = bindE p (\<lambda>s. bindE (joinE ps) (\<lambda>t. Inr (s @ '','' @ t)))"

text \<open>
  \<^verbatim>\<open>`${v}`\<close>, the ToString of the language. An array is joined with commas, \<^verbatim>\<open>null\<close>
  and \<^verbatim>\<open>undefined\<close> elements as the empty text. A parsed object has no function among
  its properties: with an own \<^verbatim>\<open>toString\<close> property neither conversion method can be
  called and the conversion throws a TypeError; without one it is \<^verbatim>\<open>[object Object]\<close>.
\<close>

fun toStr :: "jsval \<Rightarrow> error + string" where
  "toStr JUndefined = Inr ''undefined''"
| "toStr JNull = Inr ''null''"
| "toStr (JBool b) = Inr (if b then ''true'' else ''false'')"
| "toStr (JNum n) = Inr (numToString n)"
| "toStr (JStr s) = Inr s"
| "toStr (JArr xs) = joinE (map (\<lambda>x. if isNullish x then Inr [] else toStr x) xs)"
| "toStr (JObj kvs) =
     (if ''toString'' \<in> set (map fst kvs) then Inl TypeError else Inr ''[object Object]'')"

text \<open>
  The numeric value of a text (StringToNumber): blanks around it are dropped, the empty
  text is \<^verbatim>\<open>0\<close>, a signed run of decimal digits is that integer, the spellings of
  infinity are the infinities, anything else is \<^verbatim>\<open>NaN\<close>. A text that spells a
  fraction, an exponent or a radix literal denotes a number outside the model; no
  result below depends on the numeric value of a text.
\<close>

definition isBlank :: "char \<Rightarrow> bool" where
  "isBlank c = (c \<in> set [CHR '' '', CHR 0x09, CHR 0x0A, CHR 0x0B, CHR 0x0C, CHR 0x0D])"

definition trimBlanks :: "string \<Rightarrow> string" where
  "trimBlanks s = rev (dropWhile isBlank (rev (dropWhile isBlank s)))"

definition isDigit :: "char \<Rightarrow> bool" where
  "isDigit c = (c \<in> set ''0123456789'')"

definition digitsValue :: "string \<Rightarrow> int" where
  "digitsValue s = foldl (\<lambda>acc c. 10 * acc + (int (of_char c) - 48)) 0 s"

definition unsignedToNumber :: "string \<Rightarrow> jsnum" where
  "unsignedToNumber s =
     (if s = ''Infinity'' then PosInfinity
      else if s \<noteq> [] \<and> list_all isDigit s then Fin (digitsValue s)
      else NaN)"

fun negateNum :: "jsnum \<Rightarrow> jsnum" where
  "negateNum (Fin i) = Fin (- i)"
| "negateNum PosInfinity = NegInfinity"
| "negateNum NegInfinity = PosInfinity"
| "negateNum NaN = NaN"

definition StringToNumber :: "string \<Rightarrow> jsnum" where
  "StringToNumber s =
     (case trimBlanks s of
        [] \<Rightarrow> Fin 0
      | c # cs \<Rightarrow>
          if c = CHR ''+'' then unsignedToNumber cs
          else if c = CHR ''-'' then negateNum (unsignedToNumber cs)
          else unsignedToNumber (c # cs))"

text \<open>
  ToNumber, as \<^verbatim>\<open>Math.min\<close> and \<^verbatim>\<open>Math.max\<close> apply it to each argument. An array
  is converted through its text; an object as in \<open>toStr\<close>, its text \<^verbatim>\<open>[object Object]\<close>
  being no number.
\<close>

fun toNumber :: "jsval \<Rightarrow> error + jsnum" where
  "toNumber JUndefined = Inr NaN"
| "toNumber JNull = Inr (Fin 0)"
| "toNumber (JBool b) = Inr (Fin (if b then 1 else 0))"
| "toNumber (JNum n) = Inr n"
| "toNumber (JStr s) = Inr (StringToNumber s)"
| "toNumber (JArr xs) = bindE (toStr (JArr xs)) (\<lambda>s. Inr (StringToNumber s))"
| "toNumber (JObj kvs) =
     (if ''toString'' \<in> set (map fst kvs) then Inl TypeError else Inr NaN)"

text \<open>\<^verbatim>\<open>a < b\<close> on numbers: false when either is \<^verbatim>\<open>NaN\<close>.\<close>

fun lessNum :: "jsnum \<Rightarrow> jsnum \<Rightarrow> bool" where
  "lessNum NaN b = False"
| "lessNum a NaN = False"
| "lessNum (Fin i) (Fin j) = (i < j)"
| "lessNum NegInfinity b = (b \<noteq> NegInfinity)"
| "lessNum a PosInfinity = (a \<noteq> PosInfinity)"
| "lessNum a b = False"

text \<open>
  \<^verbatim>\<open>Math.min(...args)\<close>: every argument is converted first; the result starts at
  \<^verbatim>\<open>+Infinity\<close>, is \<^verbatim>\<open>NaN\<close> as soon as one number is, and otherwise the least.
  \<^verbatim>\<open>Math.max\<close> mirrors it from \<^verbatim>\<open>-Infinity\<close>.
\<close>

fun minLoop :: "jsnum \<Rightarrow> jsnum list \<Rightarrow> jsnum" where
  "minLoop lowest [] = lowest"
| "minLoop lowest (n # ns) =
     (if n = NaN then NaN else minLoop (if lessNum n lowest then n else lowest) ns)"

fun maxLoop :: "jsnum \<Rightarrow> jsnum list \<Rightarrow> jsnum" where
  "maxLoop highest [] = highest"
| "maxLoop highest (n # ns) =
     (if n = NaN then NaN else maxLoop (if lessNum highest n then n else highest) ns)"

definition Math_min :: "jsval list \<Rightarrow> error + jsnum" where
  "Math_min args = bindE (mapE toNumber args) (\<lambda>coerced. Inr (minLoop PosInfinity coerced))"

definition Math_max :: "jsval list \<Rightarrow> error + jsnum" where
  "Math_max args = bindE (mapE toNumber args) (\<lambda>coerced. Inr (maxLoop NegInfinity coerced))"

text \<open>\<^verbatim>\<open>a === b\<close> on two numbers: \<^verbatim>\<open>NaN\<close> equals nothing.\<close>

definition strictEqNum :: "jsnum \<Rightarrow> jsnum \<Rightarrow> bool" where
  "strictEqNum a b = (a \<noteq> NaN \<and> b \<noteq> NaN \<and> a = b)"

section \<open>The rate normalizer\<close>

text \<open>A quote, \<^verbatim>\<open>{ lodging: lodging, mie: mie }\<close>.\<close>

record rateQuote =
  lodging :: jsval
  mie :: jsval

text \<open>
  The lodging of one sub-record \<^verbatim>\<open>r\<close> (lines 197 to 205 of \<^verbatim>\<open>app.js\<close>):
  \<^verbatim>\<open>
  let lodging = 'N/A';
  if (r.months && r.months.month && Array.isArray(r.months.month)) {
      const prices = r.months.month.map(m => m.value);
      const min = Math.min(...prices);
      const max = Math.max(...prices);
      lodging = (min === max) ? min : `${min}-${max}`;
  }
  \<close>
  \<open>monthPrices\<close> is the call of \<^verbatim>\<open>map\<close>, which only an array has.
\<close>

definition monthPrices :: "jsval \<Rightarrow> error + jsval list" where
  "monthPrices month =
     (case month of
        JArr ms \<Rightarrow> mapE (\<lambda>m. getProp m ''value'') ms
      | _ \<Rightarrow> Inl TypeError)"

definition lodgingOf :: "jsval \<Rightarrow> error + jsval" where
  "lodgingOf r =
     bindE (getProp r ''months'') (\<lambda>months.
       if \<not> truthy months then Inr (JStr ''N/A'')
       else bindE (getProp months ''month'') (\<lambda>month.
         if truthy month \<and> isArray month then
           bindE (monthPrices month) (\<lambda>prices.
           bindE (Math_min prices) (\<lambda>min.
           bindE (Math_max prices) (\<lambda>max.
             Inr (if strictEqNum min max then JNum min
                  else JStr (numToString min @ ''-'' @ numToString max)))))
         else Inr (JStr ''N/A'')))"

text \<open>
  \<^verbatim>\<open>subRates.forEach(r => { const mie = r.meals; ...; normalized.push({...}) })\<close>, the
  list \<^verbatim>\<open>normalized\<close> threaded through; an exception leaves the loop.
\<close>

fun subRatesLoop :: "jsval list \<Rightarrow> rateQuote list \<Rightarrow> error + rateQuote list" where
  "subRatesLoop [] normalized = Inr normalized"
| "subRatesLoop (r # rs) normalized =
     bindE (getProp r ''meals'') (\<lambda>m.
     bindE (lodgingOf r) (\<lambda>l.
       subRatesLoop rs (normalized @ [\<lparr>lodging = l, mie = m\<rparr>])))"

text \<open>
  \<^verbatim>\<open>const subRates = mainItem.rate || []; subRates.forEach(...)\<close>: only an array has
  a \<^verbatim>\<open>forEach\<close> to call; on any other truthy value the call throws a TypeError.
\<close>

definition forEachSubRate :: "jsval \<Rightarrow> rateQuote list \<Rightarrow> error + rateQuote list" where
  "forEachSubRate mainItem normalized =
     bindE (getProp mainItem ''rate'') (\<lambda>rate.
       case orElse rate (JArr []) of
         JArr subRates \<Rightarrow> subRatesLoop subRates normalized
       | _ \<Rightarrow> Inl TypeError)"

fun mainLoop :: "jsval list \<Rightarrow> rateQuote list \<Rightarrow> error + rateQuote list" where
  "mainLoop [] normalized = Inr normalized"
| "mainLoop (mainItem # rest) normalized =
     bindE (forEachSubRate mainItem normalized) (\<lambda>normalized'. mainLoop rest normalized')"

definition normalizeRates :: "jsval \<Rightarrow> error + rateQuote list" where
  "normalizeRates rawRates =
     (let list = (case rawRates of JArr xs \<Rightarrow> xs | _ \<Rightarrow> [rawRates])
      in mainLoop list [])"

section \<open>Deduplication\<close>

text \<open>
  \<^verbatim>\<open>const key = `${r.lodging || 'N/A'}-${r.mie || 'N/A'}`;\<close>
\<close>

definition rateKey :: "rateQuote \<Rightarrow> error + string" where
  "rateKey r =
     bindE (toStr (orElse (lodging r) (JStr ''N/A''))) (\<lambda>a.
     bindE (toStr (orElse (mie r) (JStr ''N/A''))) (\<lambda>b.
       Inr (a @ ''-'' @ b)))"

text \<open>
  The loop of \<^verbatim>\<open>dedupeRates\<close>, with its two locals: the set \<^verbatim>\<open>seen\<close> of keys and the
  list \<^verbatim>\<open>unique\<close>.
\<close>

fun dedupeLoop :: "rateQuote list \<Rightarrow> string set \<Rightarrow> rateQuote list \<Rightarrow> error + rateQuote list" where
  "dedupeLoop [] seen unique = Inr unique"
| "dedupeLoop (r # rs) seen unique =
     bindE (rateKey r) (\<lambda>key.
       if key \<notin> seen then dedupeLoop rs (insert key seen) (unique @ [r])
       else dedupeLoop rs seen unique)"

definition dedupeRates :: "rateQuote list \<Rightarrow> error + rateQuote list" where
  "dedupeRates rates = dedupeLoop rates {} []"

section \<open>The services and the page\<close>

text \<open>
  A coordinate is a double that the script never computes with: it is kept as what it
  was read from, the text given to \<^verbatim>\<open>parseFloat\<close> or the device's own number.
\<close>

datatype coord = ParseFloat string | DeviceNumber jsval

type_synonym center = "coord \<times> coord"

text \<open>
  A request is the URL that \<^verbatim>\<open>fetch\<close> is called with: one constructor for each URL
  template of the script, applied to the texts interpolated into it. The network answers
  a request with a response (its \<^verbatim>\<open>ok\<close> flag and its body: a JSON value, or none
  when the body is not JSON), or does not answer: then the \<^verbatim>\<open>fetch\<close> itself rejects.
  Within a run every request is issued once, so the network is a function of the
  request.
\<close>

datatype request =
    GeocodeSearch string
  | ReverseLookup string string
  | BoundarySearch string
  | WorkerRates string string
  | OverpassAround coord coord

datatype response = Rejected | Response bool "jsval option"

type_synonym network = "request \<Rightarrow> response"

text \<open>What the page shows: the status line, the rate panel, the map's layers, a popup.\<close>

datatype statusText = Text string | MessageOf error

fun errorMessage :: "error \<Rightarrow> statusText" where
  "errorMessage (Error m) = Text m"
| "errorMessage e = MessageOf e"

record statusLine =
  message :: statusText
  isError :: bool
  isLoading :: bool

datatype shape = GeoJSON jsval | CircleMarker center | Polygon "(jsval \<times> jsval) list"

text \<open>
  A layer on the map with its click handler: a click on it looks up the rates of
  \<open>boundZip\<close>.
\<close>

record overlay =
  shape :: shape
  boundZip :: jsval

datatype mapView = InitialView | SetView center nat | FitBounds shape

record world =
  status :: statusLine
  ratePanelShown :: bool
  rateList :: "string list"
  targetLayer :: "overlay option"
  surroundingLayer :: "overlay list"
  view :: mapView
  popup :: "string option"
  yearSelect :: "string option"
  requests :: "request list"

text \<open>
  The map library is not part of the script. Three of its calls are handed what a service
  answered: \<^verbatim>\<open>L.geoJSON(geojson)\<close>, \<^verbatim>\<open>map.fitBounds(layer.getBounds())\<close> on the layer
  built of a geometry, and \<^verbatim>\<open>L.polygon(latlngs)\<close>; the library throws when it cannot
  read the geometry it is given. What it does at each such call is a parameter of the
  model: it draws (\<open>None\<close>) or it throws an error. The other calls (the view set on a
  center, the circle marker at a center, the style and the click handler of a layer that
  is built) are handed a center or a layer of the library's own, and are taken to
  succeed.
\<close>

datatype mapCall =
    L_geoJSON jsval
  | Map_fitBounds jsval
  | L_polygon "(jsval \<times> jsval) list"

type_synonym mapLibrary = "mapCall \<Rightarrow> error option"

definition libCall :: "mapLibrary \<Rightarrow> mapCall \<Rightarrow> error + unit" where
  "libCall lib call = (case lib call of None \<Rightarrow> Inr () | Some e \<Rightarrow> Inl e)"

text \<open>A step that may throw and may change the world.\<close>

type_synonym 'a step = "world \<Rightarrow> (error + 'a) \<times> world"

definition bindS :: "'a step \<Rightarrow> ('a \<Rightarrow> 'b step) \<Rightarrow> 'b step" where
  "bindS m f w = (case m w of (Inl e, w') \<Rightarrow> (Inl e, w') | (Inr v, w') \<Rightarrow> f v w')"

definition liftE :: "error + 'a \<Rightarrow> 'a step" where
  "liftE r w = (r, w)"

definition fetch :: "network \<Rightarrow> request \<Rightarrow> (bool \<times> jsval option) step" where
  "fetch net req w =
     (case net req of Rejected \<Rightarrow> Inl NetworkError | Response ok body \<Rightarrow> Inr (ok, body),
      w\<lparr>requests := requests w @ [req]\<rparr>)"

text \<open>\<^verbatim>\<open>await res.json()\<close>\<close>

definition json :: "jsval option \<Rightarrow> error + jsval" where
  "json body = (case body of None \<Rightarrow> Inl SyntaxError | Some data \<Rightarrow> Inr data)"

definition updateStatus :: "statusText \<Rightarrow> bool \<Rightarrow> bool \<Rightarrow> world \<Rightarrow> world" where
  "updateStatus msg err loading w =
     w\<lparr>status := \<lparr>message = msg, isError = err, isLoading = loading\<rparr>\<rparr>"

definition clearLayers :: "world \<Rightarrow> world" where
  "clearLayers w = w\<lparr>targetLayer := None, surroundingLayer := []\<rparr>"

text \<open>\<^verbatim>\<open>data[0]\<close>\<close>

fun getIndex0 :: "jsval \<Rightarrow> error + jsval" where
  "getIndex0 JUndefined = Inl TypeError"
| "getIndex0 JNull = Inl TypeError"
| "getIndex0 (JArr xs) = Inr (case xs of [] \<Rightarrow> JUndefined | x # _ \<Rightarrow> x)"
| "getIndex0 (JStr s) = Inr (case s of [] \<Rightarrow> JUndefined | c # _ \<Rightarrow> JStr [c])"
| "getIndex0 (JObj kvs) = Inr (case map_of kvs ''0'' of Some v \<Rightarrow> v | None \<Rightarrow> JUndefined)"
| "getIndex0 v = Inr JUndefined"

subsection \<open>The location resolver\<close>

definition geocode :: "network \<Rightarrow> string \<Rightarrow> jsval step" where
  "geocode net query =
     bindS (fetch net (GeocodeSearch query)) (\<lambda>(ok, body).
       if \<not> ok then liftE (Inl (Error ''Geocoding failed. Please try again later.''))
       else bindS (liftE (json body)) (\<lambda>data. liftE (getIndex0 data)))"

text \<open>
  \<^verbatim>\<open>
  async function resolveZip(place) {
      if (place.address && place.address.postcode) return place.address.postcode;
      const url = `...reverse?format=json&lat=${place.lat}&lon=${place.lon}&zoom=18&addressdetails=1`;
      const res = await fetch(url);
      if (!res.ok) return null;
      const data = await res.json();
      return data.address?.postcode || null;
  }
  \<close>
\<close>

definition resolveZip :: "network \<Rightarrow> jsval \<Rightarrow> jsval step" where
  "resolveZip net place =
     bindS (liftE (getProp place ''address'')) (\<lambda>address.
       if truthy address \<and> truthy (getPropOpt address ''postcode'')
       then liftE (Inr (getPropOpt address ''postcode''))
       else
         bindS (liftE (bindE (getProp place ''lat'') toStr)) (\<lambda>lat.
         bindS (liftE (bindE (getProp place ''lon'') toStr)) (\<lambda>lon.
         bindS (fetch net (ReverseLookup lat lon)) (\<lambda>(ok, body).
           if \<not> ok then liftE (Inr JNull)
           else
             bindS (liftE (json body)) (\<lambda>data.
             bindS (liftE (getProp data ''address'')) (\<lambda>address'.
               liftE (Inr (orElse (getPropOpt address' ''postcode'') JNull))))))))"

subsection \<open>The region fetchers\<close>

definition fetchZipBoundary :: "network \<Rightarrow> jsval \<Rightarrow> jsval step" where
  "fetchZipBoundary net zip' =
     bindS (liftE (toStr zip')) (\<lambda>z.
     bindS (fetch net (BoundarySearch z)) (\<lambda>(ok, body).
       if \<not> ok then liftE (Inl (Error ''Could not load boundary for the target Zip Code.''))
       else
         bindS (liftE (json body)) (\<lambda>data.
         bindS (liftE (getIndex0 data)) (\<lambda>first.
           liftE (Inr (orElse (getPropOpt first ''geojson'') JNull))))))"

text \<open>
  \<^verbatim>\<open>a === b\<close>, and the SameValueZero of \<^verbatim>\<open>Set.prototype.has\<close> (which differs on
  \<^verbatim>\<open>NaN\<close> only). Two arrays or objects are equal when they are one object; the values
  compared here are parts of different parsed documents or different elements of one,
  hence never that.
\<close>

fun strictEq :: "jsval \<Rightarrow> jsval \<Rightarrow> bool" where
  "strictEq (JArr xs) b = False"
| "strictEq (JObj kvs) b = False"
| "strictEq (JNum n) b = (n \<noteq> NaN \<and> b = JNum n)"
| "strictEq a b = (a = b)"

fun sameValueZero :: "jsval \<Rightarrow> jsval \<Rightarrow> bool" where
  "sameValueZero (JArr xs) b = False"
| "sameValueZero (JObj kvs) b = False"
| "sameValueZero a b = (a = b)"

text \<open>
  A zone, \<^verbatim>\<open>{ postalCode: code, geometry: el.geometry }\<close>. The shape builder also
  reads \<^verbatim>\<open>zone.geojson\<close>, which is \<^verbatim>\<open>undefined\<close> on the objects that this literal
  builds.
\<close>

record zone =
  postalCode :: jsval
  geometry :: jsval
  geojson :: jsval

text \<open>
  What \<^verbatim>\<open>for (const el of v)\<close> runs over: the elements of an array, the characters of
  a text; nothing else that \<^verbatim>\<open>res.json()\<close> returns can be iterated.
\<close>

fun iterate :: "jsval \<Rightarrow> error + jsval list" where
  "iterate (JArr xs) = Inr xs"
| "iterate (JStr s) = Inr (map (\<lambda>c. JStr [c]) s)"
| "iterate v = Inl TypeError"

text \<open>
  The loop of \<^verbatim>\<open>fetchSurroundingZips\<close>, with its locals \<^verbatim>\<open>zones\<close> and \<^verbatim>\<open>seen\<close>
  (a \<^verbatim>\<open>Set\<close>, kept as the list of its members):
  \<^verbatim>\<open>
  for (const el of data.elements || []) {
      const code = el.tags?.postal_code;
      if (!code || code === targetZip || seen.has(code)) continue;
      seen.add(code);
      zones.push({ postalCode: code, geometry: el.geometry });
  }
  \<close>
\<close>

fun zonesLoop :: "jsval list \<Rightarrow> jsval \<Rightarrow> jsval list \<Rightarrow> zone list \<Rightarrow> error + zone list" where
  "zonesLoop [] targetZip seen zones = Inr zones"
| "zonesLoop (el # els) targetZip seen zones =
     bindE (getProp el ''tags'') (\<lambda>tags.
       let code = getPropOpt tags ''postal_code'' in
       if \<not> truthy code \<or> strictEq code targetZip \<or> list_ex (sameValueZero code) seen
       then zonesLoop els targetZip seen zones
       else
         bindE (getProp el ''geometry'') (\<lambda>g.
           zonesLoop els targetZip (seen @ [code]) (zones @ [\<lparr>postalCode = code, geometry = g, geojson = JUndefined\<rparr>])))"

definition fetchSurroundingZips :: "network \<Rightarrow> center \<Rightarrow> jsval \<Rightarrow> zone list step" where
  "fetchSurroundingZips net c targetZip =
     bindS (fetch net (OverpassAround (fst c) (snd c))) (\<lambda>(ok, body).
       if \<not> ok then liftE (Inr [])
       else
         bindS (liftE (json body)) (\<lambda>data.
         bindS (liftE (getProp data ''elements'')) (\<lambda>elements.
         bindS (liftE (iterate (orElse elements (JArr [])))) (\<lambda>els.
           liftE (zonesLoop els targetZip [] [])))))"

subsection \<open>The rate service\<close>

definition tryCatch :: "'a step \<Rightarrow> (error \<Rightarrow> 'a step) \<Rightarrow> 'a step" where
  "tryCatch m handler w = (case m w of (Inl e, w') \<Rightarrow> handler e w' | (Inr v, w') \<Rightarrow> (Inr v, w'))"

text \<open>
  \<^verbatim>\<open>fetchPerDiem\<close>: the year comes from the dropdown, \<^verbatim>\<open>'2025'\<close> when the page has
  none; the URL is built before the \<^verbatim>\<open>try\<close>; everything from the \<^verbatim>\<open>fetch\<close> on is
  inside it, and the \<^verbatim>\<open>catch\<close> returns \<^verbatim>\<open>[]\<close>.
\<close>

definition selectedYear :: "world \<Rightarrow> string" where
  "selectedYear w = (case yearSelect w of Some v \<Rightarrow> v | None \<Rightarrow> ''2025'')"

definition fetchPerDiem :: "network \<Rightarrow> jsval \<Rightarrow> rateQuote list step" where
  "fetchPerDiem net zip' w =
     (let year = selectedYear w in
      bindS (liftE (toStr zip')) (\<lambda>z.
        tryCatch
          (bindS (fetch net (WorkerRates z year)) (\<lambda>(ok, body).
             if \<not> ok then liftE (Inr [])
             else
               bindS (liftE (json body)) (\<lambda>data.
                 let rawRates =
                   orElse (orElse (getPropOpt data ''rates'') (getPropOpt data ''rate'')) (JArr [])
                 in liftE (normalizeRates rawRates))))
          (\<lambda>e. liftE (Inr []))) w)"

subsection \<open>Rendering\<close>

definition doS :: "(world \<Rightarrow> world) \<Rightarrow> unit step" where
  "doS f w = (Inr (), f w)"

definition rateItemText :: "jsval \<Rightarrow> rateQuote \<Rightarrow> error + string" where
  "rateItemText zip' r =
     bindE (toStr zip') (\<lambda>z.
     bindE (toStr (lodging r)) (\<lambda>l.
     bindE (toStr (mie r)) (\<lambda>m.
       Inr (''Zip '' @ z @ '': Lodging $'' @ l @ '' / M&IE $'' @ m))))"

fun rateItemsLoop :: "jsval \<Rightarrow> rateQuote list \<Rightarrow> unit step" where
  "rateItemsLoop zip' [] w = (Inr (), w)"
| "rateItemsLoop zip' (r # rs) w =
     (case rateItemText zip' r of
        Inl e \<Rightarrow> (Inl e, w)
      | Inr item \<Rightarrow> rateItemsLoop zip' rs (w\<lparr>rateList := rateList w @ [item]\<rparr>))"

definition displayRates :: "jsval \<Rightarrow> rateQuote list \<Rightarrow> unit step" where
  "displayRates zip' rates =
     bindS (doS (\<lambda>w. w\<lparr>ratePanelShown := True, rateList := []\<rparr>)) (\<lambda>_.
     bindS (liftE (dedupeRates rates)) (\<lambda>unique.
       if unique = [] then doS (\<lambda>w. w\<lparr>rateList := [''No per diem data for this zip.'']\<rparr>)
       else rateItemsLoop zip' unique))"

text \<open>
  \<^verbatim>\<open>
  function drawTarget(geojson, fallbackCenter, zip) {
      if (geojson) {
          targetLayer = L.geoJSON(geojson, {...}).addTo(map);
          map.fitBounds(targetLayer.getBounds(), { padding: [20, 20] });
      } else {
          targetLayer = L.circleMarker(fallbackCenter, {...}).addTo(map);
          targetLayer.on('click', () => showPopup(fallbackCenter, zip));
      }
  }
  \<close>
  When \<^verbatim>\<open>L.geoJSON\<close> throws, \<^verbatim>\<open>targetLayer\<close> is not assigned; when \<^verbatim>\<open>fitBounds\<close>
  throws, the layer is on the map and the view is as it was.
\<close>

definition drawTarget :: "mapLibrary \<Rightarrow> jsval \<Rightarrow> center \<Rightarrow> jsval \<Rightarrow> unit step" where
  "drawTarget lib g fallbackCenter zip' =
     (if truthy g
      then
        bindS (liftE (libCall lib (L_geoJSON g))) (\<lambda>_.
        bindS (doS (\<lambda>w. w\<lparr>targetLayer := Some \<lparr>shape = GeoJSON g, boundZip = zip'\<rparr>\<rparr>)) (\<lambda>_.
        bindS (liftE (libCall lib (Map_fitBounds g))) (\<lambda>_.
          doS (\<lambda>w. w\<lparr>view := FitBounds (GeoJSON g)\<rparr>))))
      else
        doS (\<lambda>w. w\<lparr>targetLayer :=
                      Some \<lparr>shape = CircleMarker fallbackCenter, boundZip = zip'\<rparr>\<rparr>))"

text \<open>\<^verbatim>\<open>v.length\<close>: arrays and texts have one of their own.\<close>

fun lengthOf :: "jsval \<Rightarrow> error + jsval" where
  "lengthOf (JArr xs) = Inr (JNum (Fin (int (length xs))))"
| "lengthOf (JStr s) = Inr (JNum (Fin (int (length s))))"
| "lengthOf v = getProp v ''length''"

text \<open>
  \<^verbatim>\<open>
  function toLeafletShape(zone) {
      if (zone.geojson) { return L.geoJSON(zone.geojson); }
      if (zone.geometry && zone.geometry.length) {
          return L.polygon(zone.geometry.map(pt => [pt.lat, pt.lon]));
      }
      return null;
  }
  \<close>
  Only an array has a \<^verbatim>\<open>map\<close> to call.
\<close>

definition toLeafletShape :: "mapLibrary \<Rightarrow> zone \<Rightarrow> error + shape option" where
  "toLeafletShape lib z =
     (if truthy (geojson z)
      then bindE (libCall lib (L_geoJSON (geojson z))) (\<lambda>_. Inr (Some (GeoJSON (geojson z))))
      else if truthy (geometry z) \<and> truthy (case lengthOf (geometry z) of Inl e \<Rightarrow> JUndefined | Inr n \<Rightarrow> n)
      then
        (case geometry z of
           JArr pts \<Rightarrow>
             bindE (mapE (\<lambda>pt. bindE (getProp pt ''lat'') (\<lambda>a.
                                 bindE (getProp pt ''lon'') (\<lambda>b. Inr (a, b)))) pts)
               (\<lambda>latlngs. bindE (libCall lib (L_polygon latlngs))
                                (\<lambda>_. Inr (Some (Polygon latlngs))))
         | _ \<Rightarrow> Inl TypeError)
      else Inr None)"

text \<open>
  \<^verbatim>\<open>neighbors.forEach(async (zone) => { ... })\<close>: the callback has no \<^verbatim>\<open>await\<close>, so
  each call runs to its end before the next; what it throws rejects a promise that
  nobody reads, and the loop goes on.
\<close>

fun attachNeighbors :: "mapLibrary \<Rightarrow> zone list \<Rightarrow> world \<Rightarrow> world" where
  "attachNeighbors lib [] w = w"
| "attachNeighbors lib (z # zs) w =
     (case toLeafletShape lib z of
        Inl e \<Rightarrow> attachNeighbors lib zs w
      | Inr None \<Rightarrow> attachNeighbors lib zs w
      | Inr (Some layer) \<Rightarrow>
          attachNeighbors lib zs
            (w\<lparr>surroundingLayer :=
                 surroundingLayer w @ [\<lparr>shape = layer, boundZip = postalCode z\<rparr>]\<rparr>))"

definition renderSurrounding :: "mapLibrary \<Rightarrow> network \<Rightarrow> center \<Rightarrow> jsval \<Rightarrow> unit step" where
  "renderSurrounding lib net c targetZip =
     bindS (doS (updateStatus (Text ''Loading surrounding Zip Codes...'') False True)) (\<lambda>_.
     bindS (fetchSurroundingZips net c targetZip) (\<lambda>neighbors.
       if neighbors = []
       then doS (updateStatus
                   (Text ''No nearby postal boundaries found. Showing target only.'') False False)
       else doS (attachNeighbors lib neighbors)))"

subsection \<open>Popups\<close>

definition popupLine :: "rateQuote \<Rightarrow> error + string" where
  "popupLine r =
     bindE (toStr (lodging r)) (\<lambda>l.
     bindE (toStr (mie r)) (\<lambda>m.
       Inr (''<div>Lodging $'' @ l @ '' | M&IE $'' @ m @ ''</div>'')))"

definition buildPopupContent :: "jsval \<Rightarrow> rateQuote list \<Rightarrow> error + string" where
  "buildPopupContent zip' rates =
     bindE (dedupeRates rates) (\<lambda>unique.
       if unique = []
       then bindE (toStr zip') (\<lambda>z. Inr (''<strong>Zip '' @ z @ ''</strong><br>No per diem data.''))
       else
         bindE (mapE popupLine unique) (\<lambda>lines.
         bindE (toStr zip') (\<lambda>z.
           Inr (''<strong>Zip '' @ z @ ''</strong><br>'' @ concat lines))))"

text \<open>
  A click on a layer, the target's (\<^verbatim>\<open>showPopup\<close>) or a neighbor's: the rates of the
  layer's postal code are fetched and the popup opened. What the handler throws is lost
  with its promise.
\<close>

definition showPopup :: "network \<Rightarrow> jsval \<Rightarrow> world \<Rightarrow> world" where
  "showPopup net zip' w =
     (case bindS (fetchPerDiem net zip') (\<lambda>rates. liftE (buildPopupContent zip' rates)) w of
        (Inl e, w') \<Rightarrow> w'
      | (Inr content, w') \<Rightarrow> w'\<lparr>popup := Some content\<rparr>)"

definition clickOverlay :: "network \<Rightarrow> overlay \<Rightarrow> world \<Rightarrow> world" where
  "clickOverlay net layer w = showPopup net (boundZip layer) w"

section \<open>The pipeline\<close>

definition centeringMessage :: "jsval \<Rightarrow> jsval \<Rightarrow> error + string" where
  "centeringMessage label zip' =
     bindE (toStr label) (\<lambda>l.
     bindE (toStr zip') (\<lambda>z.
       Inr (''Centering map on '' @ l @ '' (Zip '' @ z @ '')...'')))"

definition updateView ::
  "mapLibrary \<Rightarrow> network \<Rightarrow> coord \<Rightarrow> coord \<Rightarrow> jsval \<Rightarrow> jsval \<Rightarrow> unit step" where
  "updateView lib net lat lon zip' label =
     (let c = (lat, lon) in
      bindS (doS (\<lambda>w. w\<lparr>view := SetView c 11\<rparr>)) (\<lambda>_.
      bindS (liftE (centeringMessage label zip')) (\<lambda>msg.
      bindS (doS (updateStatus (Text msg) False True)) (\<lambda>_.
      bindS (fetchZipBoundary net zip') (\<lambda>targetGeojson.
      bindS (drawTarget lib targetGeojson c zip') (\<lambda>_.
      bindS (fetchPerDiem net zip') (\<lambda>mainRates.
      bindS (displayRates zip' mainRates) (\<lambda>_.
      bindS (renderSurrounding lib net c zip') (\<lambda>_.
        doS (updateStatus
               (Text ''Click any shaded area to see its per diem rate.'') False False))))))))))"

text \<open>
  The \<^verbatim>\<open>catch\<close> of both handlers:
  \<^verbatim>\<open>catch (err) { console.error(err); updateStatus(err.message, true); }\<close>
\<close>

definition caught :: "unit step \<Rightarrow> world \<Rightarrow> world" where
  "caught body w =
     (case body w of
        (Inl err, w') \<Rightarrow> updateStatus (errorMessage err) True False w'
      | (Inr u, w') \<Rightarrow> w')"

text \<open>The submit handler of the search form, on the text of the input field.\<close>

definition searchSubmit :: "mapLibrary \<Rightarrow> network \<Rightarrow> string \<Rightarrow> world \<Rightarrow> world" where
  "searchSubmit lib net inputValue w =
     (let query = trimBlanks inputValue in
      if query = [] then w
      else
        caught
          (bindS (geocode net query) (\<lambda>place.
             if \<not> truthy place then liftE (Inl (Error ''No matching location found.''))
             else
               bindS (liftE (toStr (getPropOpt place ''lat''))) (\<lambda>latText.
               bindS (liftE (toStr (getPropOpt place ''lon''))) (\<lambda>lonText.
               bindS (resolveZip net place) (\<lambda>targetZip.
                 if \<not> truthy targetZip
                 then liftE (Inl (Error ''Could not determine a Zip Code for this location.''))
                 else updateView lib net (ParseFloat latText) (ParseFloat lonText) targetZip
                        (getPropOpt place ''display_name''))))))
          ((updateStatus (Text ''Searching for location...'') False True (clearLayers w))
             \<lparr>ratePanelShown := False, rateList := []\<rparr>))"

text \<open>
  The click handler of the locate button: the browser may have no geolocation, may fail
  to give a position, or gives one.
\<close>

datatype geolocation = Unsupported | Unavailable | Position jsval jsval

definition locateClick :: "mapLibrary \<Rightarrow> network \<Rightarrow> geolocation \<Rightarrow> world \<Rightarrow> world" where
  "locateClick lib net geo w =
     (case geo of
        Unsupported \<Rightarrow>
          updateStatus (Text ''Geolocation is not supported by your browser.'') True False w
      | Unavailable \<Rightarrow>
          updateStatus (Text ''Unable to retrieve your location.'') True False
            (updateStatus (Text ''Locating...'') False True w)
      | Position lat lon \<Rightarrow>
          caught
            (bindS (doS (\<lambda>w. (updateStatus (Text ''Found location. Finding Zip Code...'') False True
                                (clearLayers w))\<lparr>ratePanelShown := False, rateList := []\<rparr>)) (\<lambda>_.
             bindS (resolveZip net (JObj [(''lat'', lat), (''lon'', lon)])) (\<lambda>targetZip.
               if \<not> truthy targetZip
               then liftE (Inl (Error ''Could not determine a Zip Code for your location.''))
               else updateView lib net (DeviceNumber lat) (DeviceNumber lon) targetZip
                      (JStr ''Your Location''))))
            (updateStatus (Text ''Locating...'') False True w))"

section \<open>Terms of the properties\<close>

text \<open>A computation returns (it does not throw); it throws nothing but a TypeError.\<close>

definition returns :: "error + 'a \<Rightarrow> bool" where
  "returns r = (case r of Inl e \<Rightarrow> False | Inr v \<Rightarrow> True)"

definition typeErrorOnly :: "error + 'a \<Rightarrow> bool" where
  "typeErrorOnly r = (case r of Inl e \<Rightarrow> e = TypeError | Inr v \<Rightarrow> True)"

text \<open>
  The shape of a payload that \<open>normalizeRates\<close> walks to its end. The monthly breakdown
  of a sub-record is the list under \<^verbatim>\<open>months.month\<close>, when \<^verbatim>\<open>months\<close> is truthy and
  \<^verbatim>\<open>month\<close> is a list. An entry of it must not be \<^verbatim>\<open>null\<close>, and its \<^verbatim>\<open>value\<close> must
  convert to a number (every number, text, boolean, \<^verbatim>\<open>null\<close> and missing value does);
  a sub-record must not be \<^verbatim>\<open>null\<close>; a record must not be \<^verbatim>\<open>null\<close> and its \<^verbatim>\<open>rate\<close>
  must be falsy (missing, say) or a list.
\<close>

definition breakdown :: "jsval \<Rightarrow> jsval list option" where
  "breakdown r =
     (let months = getPropOpt r ''months'' in
      if truthy months
      then (case getPropOpt months ''month'' of JArr ms \<Rightarrow> Some ms | _ \<Rightarrow> None)
      else None)"

definition entryOk :: "jsval \<Rightarrow> bool" where
  "entryOk m = (\<not> isNullish m \<and> returns (toNumber (getPropOpt m ''value'')))"

definition subRecordOk :: "jsval \<Rightarrow> bool" where
  "subRecordOk r =
     (\<not> isNullish r \<and> (case breakdown r of None \<Rightarrow> True | Some ms \<Rightarrow> list_all entryOk ms))"

definition recordOk :: "jsval \<Rightarrow> bool" where
  "recordOk mainItem =
     (\<not> isNullish mainItem \<and>
      (let rate = getPropOpt mainItem ''rate'' in
       if truthy rate then (case rate of JArr rs \<Rightarrow> list_all subRecordOk rs | _ \<Rightarrow> False)
       else True))"

definition shapeOk :: "jsval \<Rightarrow> bool" where
  "shapeOk rawRates = list_all recordOk (case rawRates of JArr xs \<Rightarrow> xs | _ \<Rightarrow> [rawRates])"

text \<open>
  The key of a quote as a text, for a quote that has one (the conversion of a field to
  text can throw only on an array or object field).
\<close>

definition keyText :: "rateQuote \<Rightarrow> string" where
  "keyText r = (case rateKey r of Inl e \<Rightarrow> [] | Inr k \<Rightarrow> k)"

definition hasKey :: "rateQuote \<Rightarrow> bool" where
  "hasKey r = (case rateKey r of Inl e \<Rightarrow> False | Inr k \<Rightarrow> True)"

text \<open>
  The key in the specification's words: the pair of the two fields, a missing value
  replaced by the marker \<^verbatim>\<open>"N/A"\<close>.
\<close>

definition naIfMissing :: "jsval \<Rightarrow> jsval" where
  "naIfMissing v = (if isNullish v then JStr ''N/A'' else v)"

definition specKey :: "rateQuote \<Rightarrow> jsval \<times> jsval" where
  "specKey q = (naIfMissing (lodging q), naIfMissing (mie q))"

text \<open>
  A postal code is a text. On texts, and on every value that is no array and no object,
  \<^verbatim>\<open>===\<close> and the membership of a \<^verbatim>\<open>Set\<close> are the equality of values.
\<close>

fun isPrimitive :: "jsval \<Rightarrow> bool" where
  "isPrimitive (JArr xs) = False"
| "isPrimitive (JObj kvs) = False"
| "isPrimitive v = True"

text \<open>\<^verbatim>\<open>el.tags?.postal_code\<close> of an element.\<close>

definition codeOf :: "jsval \<Rightarrow> jsval" where
  "codeOf el = getPropOpt (getPropOpt el ''tags'') ''postal_code''"

text \<open>
  The two loops that keep a first occurrence, without their exceptions: what
  \<open>dedupeLoop\<close> appends when every quote has a key, and what \<open>zonesLoop\<close> appends
  when no element is \<^verbatim>\<open>null\<close>.
\<close>

fun keepNew :: "('a \<Rightarrow> 'k) \<Rightarrow> 'k set \<Rightarrow> 'a list \<Rightarrow> 'a list" where
  "keepNew K seen [] = []"
| "keepNew K seen (x # xs) =
     (if K x \<notin> seen then x # keepNew K (insert (K x) seen) xs else keepNew K seen xs)"

fun keepZones :: "jsval list \<Rightarrow> jsval \<Rightarrow> jsval list \<Rightarrow> zone list" where
  "keepZones [] targetZip seen = []"
| "keepZones (el # els) targetZip seen =
     (if \<not> truthy (codeOf el) \<or> strictEq (codeOf el) targetZip
         \<or> list_ex (sameValueZero (codeOf el)) seen
      then keepZones els targetZip seen
      else \<lparr>postalCode = codeOf el, geometry = getPropOpt el ''geometry'', geojson = JUndefined\<rparr>
           # keepZones els targetZip (seen @ [codeOf el]))"

text \<open>What \<open>fetchSurroundingZips\<close> returns or throws, by the answer of the network.\<close>

definition surroundingResult :: "response \<Rightarrow> jsval \<Rightarrow> error + zone list" where
  "surroundingResult answer targetZip =
     (case answer of
        Rejected \<Rightarrow> Inl NetworkError
      | Response ok body \<Rightarrow>
          if \<not> ok then Inr []
          else bindE (json body) (\<lambda>data.
               bindE (getProp data ''elements'') (\<lambda>elements.
               bindE (iterate (orElse elements (JArr []))) (\<lambda>els.
                 zonesLoop els targetZip [] []))))"

text \<open>
  \<^verbatim>\<open>v.address?.postcode\<close>, the postcode that a place or a reverse lookup carries.
\<close>

definition postcodeOf :: "jsval \<Rightarrow> jsval" where
  "postcodeOf v = getPropOpt (getPropOpt v ''address'') ''postcode''"

text \<open>
  What the other fetchers return or throw, by the answer of the network: the reverse
  lookup of \<open>resolveZip\<close>, \<open>fetchZipBoundary\<close>, and \<open>fetchPerDiem\<close>, which only
  returns.
\<close>

definition reverseResult :: "response \<Rightarrow> error + jsval" where
  "reverseResult answer =
     (case answer of
        Rejected \<Rightarrow> Inl NetworkError
      | Response ok body \<Rightarrow>
          if \<not> ok then Inr JNull
          else bindE (json body) (\<lambda>data.
               bindE (getProp data ''address'') (\<lambda>address.
                 Inr (orElse (getPropOpt address ''postcode'') JNull))))"

definition boundaryResult :: "response \<Rightarrow> error + jsval" where
  "boundaryResult answer =
     (case answer of
        Rejected \<Rightarrow> Inl NetworkError
      | Response ok body \<Rightarrow>
          if \<not> ok then Inl (Error ''Could not load boundary for the target Zip Code.'')
          else bindE (json body) (\<lambda>data.
               bindE (getIndex0 data) (\<lambda>first.
                 Inr (orElse (getPropOpt first ''geojson'') JNull))))"

definition ratesResult :: "response \<Rightarrow> rateQuote list" where
  "ratesResult answer =
     (case answer of
        Rejected \<Rightarrow> []
      | Response ok body \<Rightarrow>
          if \<not> ok then []
          else (case body of
                  None \<Rightarrow> []
                | Some data \<Rightarrow>
                    (case normalizeRates
                            (orElse (orElse (getPropOpt data ''rates'') (getPropOpt data ''rate''))
                               (JArr []))
                     of Inl e \<Rightarrow> [] | Inr qs \<Rightarrow> qs)))"

subsection \<open>Example data\<close>

text \<open>
  The rate list of the specification's scenario,
  \<^verbatim>\<open>[{ rate: [{ meals: 79, months: { month: [{value:150},{value:150}] } }] }]\<close>, and a
  sub-record with the breakdown \<^verbatim>\<open>vs\<close>.
\<close>

definition subRecord :: "jsval \<Rightarrow> jsval list \<Rightarrow> jsval" where
  "subRecord m vs =
     JObj [(''meals'', m),
           (''months'', JObj [(''month'', JArr (map (\<lambda>v. JObj [(''value'', v)]) vs))])]"

definition gsaRates :: jsval where
  "gsaRates = JArr [JObj [(''rate'', JArr [subRecord (JNum (Fin 79)) [JNum (Fin 150), JNum (Fin 150)]])]]"

text \<open>
  A page just loaded, the place that the geocoder finds for \<^verbatim>\<open>Austin, TX\<close>, an answer of
  the regional index (the target's own code, a code twice, an element with an empty
  geometry, an element without tags), and a network that answers the geocoder with that
  place and the three other services as it is told to.
\<close>

definition freshWorld :: world where
  "freshWorld =
     \<lparr>status = \<lparr>message = Text [], isError = False, isLoading = False\<rparr>,
      ratePanelShown = False, rateList = [], targetLayer = None, surroundingLayer = [],
      view = InitialView, popup = None, yearSelect = Some ''2025'', requests = []\<rparr>"

definition austinPlace :: jsval where
  "austinPlace =
     JObj [(''lat'', JStr ''30.27''), (''lon'', JStr ''-97.74''),
           (''display_name'', JStr ''Austin, Texas''),
           (''address'', JObj [(''city'', JStr ''Austin''), (''postcode'', JStr ''78701'')])]"

definition austinElements :: jsval where
  "austinElements =
     JObj [(''elements'', JArr
       [JObj [(''tags'', JObj [(''postal_code'', JStr ''78701'')]), (''geometry'', JNull)],
        JObj [(''tags'', JObj [(''postal_code'', JStr ''78702'')]),
              (''geometry'', JArr [JObj [(''lat'', JNum (Fin 30)), (''lon'', JNum (Fin (-97)))]])],
        JObj [(''tags'', JObj [(''postal_code'', JStr ''78702'')]), (''geometry'', JNull)],
        JObj [(''tags'', JObj [(''postal_code'', JStr ''78703'')]), (''geometry'', JArr [])],
        JObj [(''type'', JStr ''way'')]])]"

text \<open>A map library that draws whatever it is handed.\<close>

definition drawsAll :: mapLibrary where
  "drawsAll call = None"

definition austinCenter :: center where
  "austinCenter = (ParseFloat ''30.27'', ParseFloat ''-97.74'')"

definition noMatch :: response where
  "noMatch = Response True (Some (JArr []))"

definition gsaAnswer :: response where
  "gsaAnswer = Response True (Some (JObj [(''rates'', gsaRates)]))"

definition unavailable :: response where
  "unavailable = Response False None"

fun austinNetwork :: "response \<Rightarrow> response \<Rightarrow> response \<Rightarrow> network" where
  "austinNetwork boundary rates overpass (GeocodeSearch q) =
     Response True (Some (JArr [austinPlace]))"
| "austinNetwork boundary rates overpass (ReverseLookup la lo) =
     Response True (Some (JObj [(''address'', JObj [(''postcode'', JStr ''78701'')])]))"
| "austinNetwork boundary rates overpass (BoundarySearch z) = boundary"
| "austinNetwork boundary rates overpass (WorkerRates z y) = rates"
| "austinNetwork boundary rates overpass (OverpassAround la lo) = overpass"

definition zone78702 :: zone where
  "zone78702 =
     \<lparr>postalCode = JStr ''78702'',
      geometry = JArr [JObj [(''lat'', JNum (Fin 30)), (''lon'', JNum (Fin (-97)))]],
      geojson = JUndefined\<rparr>"

definition zone78703 :: zone where
  "zone78703 = \<lparr>postalCode = JStr ''78703'', geometry = JArr [], geojson = JUndefined\<rparr>"

definition flatQuote :: rateQuote where
  "flatQuote = \<lparr>lodging = JNum (Fin 150), mie = JNum (Fin 79)\<rparr>"

definition rangeQuote :: rateQuote where
  "rangeQuote = \<lparr>lodging = JStr ''80-120'', mie = JNum (Fin 79)\<rparr>"

definition emptyPostcodePlace :: jsval where
  "emptyPostcodePlace =
     JObj [(''lat'', JStr ''30.27''), (''lon'', JStr ''-97.74''),
           (''address'', JObj [(''postcode'', JStr [])])]"

definition barePlace :: jsval where
  "barePlace = JObj [(''lat'', JStr ''30.27''), (''lon'', JStr ''-97.74'')]"

section \<open>Facts about values and exceptions\<close>

lemma returns_simps [simp]: "returns (Inr v)" "\<not> returns (Inl e)"
  by (simp_all add: returns_def)

lemma bindE_simps [simp]: "bindE (Inl e) f = Inl e" "bindE (Inr v) f = f v"
  by (simp_all add: bindE_def)

lemma returns_bindE: "returns (bindE m f) = (\<exists>v. m = Inr v \<and> returns (f v))"
  by (cases m) (simp_all add: bindE_def)

lemma getProp_cases:
  "getProp v name = (if isNullish v then Inl TypeError else Inr (getPropOpt v name))"
  by (cases v) (simp_all add: getPropOpt_def)

lemma truthy_not_nullish: "truthy v \<Longrightarrow> \<not> isNullish v"
  by (cases v) simp_all

lemma returns_iff: "returns r = (\<exists>v. r = Inr v)"
  by (cases r) simp_all

lemma mapE_returns: "returns (mapE f xs) = list_all (\<lambda>x. returns (f x)) xs"
proof (induction xs)
  case Nil
  show ?case by simp
next
  case (Cons a xs)
  then show ?case by (cases "f a"; cases "mapE f xs") simp_all
qed

lemma mapE_Inr: "list_all (\<lambda>x. returns (f x)) xs \<Longrightarrow> mapE f xs = Inr (map (\<lambda>x. projr (f x)) xs)"
  by (induction xs) (auto simp: bindE_def returns_def split: sum.splits)

lemma typeErrorOnly_simps [simp]:
  "typeErrorOnly (Inr v)" "typeErrorOnly (Inl e) = (e = TypeError)"
  by (simp_all add: typeErrorOnly_def)

lemma typeErrorOnly_bindE:
  "typeErrorOnly m \<Longrightarrow> (\<And>v. m = Inr v \<Longrightarrow> typeErrorOnly (f v)) \<Longrightarrow> typeErrorOnly (bindE m f)"
  by (cases m) simp_all

lemma typeErrorOnly_mapE:
  "(\<And>x. x \<in> set xs \<Longrightarrow> typeErrorOnly (f x)) \<Longrightarrow> typeErrorOnly (mapE f xs)"
  by (induction xs) (auto intro!: typeErrorOnly_bindE)

lemma typeErrorOnly_joinE:
  "(\<And>p. p \<in> set ps \<Longrightarrow> typeErrorOnly p) \<Longrightarrow> typeErrorOnly (joinE ps)"
  by (induction ps rule: joinE.induct) (auto intro!: typeErrorOnly_bindE)

lemma typeErrorOnly_toStr: "typeErrorOnly (toStr v)"
  by (induction v rule: toStr.induct) (auto intro!: typeErrorOnly_joinE)

lemma typeErrorOnly_toNumber: "typeErrorOnly (toNumber v)"
  by (cases v) (auto simp del: toStr.simps intro!: typeErrorOnly_bindE typeErrorOnly_toStr)

lemma typeErrorOnly_getProp: "typeErrorOnly (getProp v name)"
  by (cases v) simp_all

lemma not_returns: "typeErrorOnly r \<Longrightarrow> \<not> returns r \<Longrightarrow> r = Inl TypeError"
  by (cases r) auto

section \<open>Properties of the normalizer\<close>

lemma monthPrices_returns:
  "returns (monthPrices (JArr ms)) = list_all (\<lambda>m. \<not> isNullish m) ms"
  by (simp add: monthPrices_def mapE_returns getProp_cases)

lemma monthPrices_Inr:
  "list_all (\<lambda>m. \<not> isNullish m) ms \<Longrightarrow>
   monthPrices (JArr ms) = Inr (map (\<lambda>m. getPropOpt m ''value'') ms)"
  by (simp add: monthPrices_def mapE_Inr getProp_cases list_all_iff cong: map_cong)

lemma Math_min_returns: "returns (Math_min args) = list_all (\<lambda>v. returns (toNumber v)) args"
  unfolding Math_min_def mapE_returns[symmetric] by (cases "mapE toNumber args") simp_all

lemma Math_max_returns: "returns (Math_max args) = list_all (\<lambda>v. returns (toNumber v)) args"
  unfolding Math_max_def mapE_returns[symmetric] by (cases "mapE toNumber args") simp_all

lemma lodgingOf_absent:
  "\<not> isNullish r \<Longrightarrow> breakdown r = None \<Longrightarrow> lodgingOf r = Inr (JStr ''N/A'')"
  by (auto simp: lodgingOf_def breakdown_def Let_def getProp_cases truthy_not_nullish
           split: if_splits jsval.splits)

lemma lodgingOf_breakdown:
  "\<not> isNullish r \<Longrightarrow> breakdown r = Some ms \<Longrightarrow>
   lodgingOf r =
     bindE (monthPrices (JArr ms)) (\<lambda>prices.
     bindE (Math_min prices) (\<lambda>min.
     bindE (Math_max prices) (\<lambda>max.
       Inr (if strictEqNum min max then JNum min
            else JStr (numToString min @ ''-'' @ numToString max)))))"
  by (auto simp: lodgingOf_def breakdown_def Let_def getProp_cases truthy_not_nullish
           split: if_splits jsval.splits)

lemma entryOk_split:
  "list_all entryOk ms =
     (list_all (\<lambda>m. \<not> isNullish m) ms \<and>
      list_all (\<lambda>v. returns (toNumber v)) (map (\<lambda>m. getPropOpt m ''value'') ms))"
  by (induction ms) (auto simp: entryOk_def)

lemma lodgingOf_returns: "returns (lodgingOf r) = subRecordOk r"
proof (cases "isNullish r")
  case True
  then show ?thesis by (simp add: lodgingOf_def subRecordOk_def getProp_cases)
next
  case False
  show ?thesis
  proof (cases "breakdown r")
    case None
    with False show ?thesis by (simp add: lodgingOf_absent subRecordOk_def)
  next
    case (Some ms)
    show ?thesis
    proof (cases "list_all (\<lambda>m. \<not> isNullish m) ms")
      case nn: True
      let ?prices = "map (\<lambda>m. getPropOpt m ''value'') ms"
      show ?thesis
      proof (cases "list_all (\<lambda>v. returns (toNumber v)) ?prices")
        case True
        then obtain mn mx where "Math_min ?prices = Inr mn" "Math_max ?prices = Inr mx"
          using Math_min_returns[of ?prices] Math_max_returns[of ?prices]
          by (auto simp: returns_iff)
        with False Some nn True show ?thesis
          by (simp add: lodgingOf_breakdown monthPrices_Inr subRecordOk_def entryOk_split)
      next
        case no: False
        then have "\<not> returns (Math_min ?prices)" by (simp add: Math_min_returns)
        then obtain e where "Math_min ?prices = Inl e" by (cases "Math_min ?prices") auto
        with False Some nn no show ?thesis
          by (simp add: lodgingOf_breakdown monthPrices_Inr subRecordOk_def entryOk_split)
      qed
    next
      case no: False
      then have "\<not> returns (monthPrices (JArr ms))" by (simp add: monthPrices_returns)
      then obtain e where "monthPrices (JArr ms) = Inl e"
        by (cases "monthPrices (JArr ms)") auto
      with False Some no show ?thesis
        by (simp add: lodgingOf_breakdown subRecordOk_def entryOk_split)
    qed
  qed
qed

lemma typeErrorOnly_Math_min: "typeErrorOnly (Math_min args)"
  unfolding Math_min_def
  by (intro typeErrorOnly_bindE typeErrorOnly_mapE typeErrorOnly_toNumber) simp

lemma typeErrorOnly_Math_max: "typeErrorOnly (Math_max args)"
  unfolding Math_max_def
  by (intro typeErrorOnly_bindE typeErrorOnly_mapE typeErrorOnly_toNumber) simp

lemma typeErrorOnly_monthPrices: "typeErrorOnly (monthPrices month)"
  unfolding monthPrices_def
  by (cases month) (auto intro!: typeErrorOnly_mapE typeErrorOnly_getProp)

lemma typeErrorOnly_lodgingOf: "typeErrorOnly (lodgingOf r)"
  unfolding lodgingOf_def
  by (auto intro!: typeErrorOnly_bindE typeErrorOnly_getProp typeErrorOnly_monthPrices
                   typeErrorOnly_Math_min typeErrorOnly_Math_max)

lemma typeErrorOnly_subRatesLoop: "typeErrorOnly (subRatesLoop rs acc)"
  by (induction rs arbitrary: acc)
     (auto intro!: typeErrorOnly_bindE typeErrorOnly_getProp typeErrorOnly_lodgingOf)

lemma subRatesLoop_returns: "returns (subRatesLoop rs acc) = list_all subRecordOk rs"
proof (induction rs arbitrary: acc)
  case Nil
  show ?case by simp
next
  case (Cons r rs)
  show ?case
  proof (cases "isNullish r")
    case True
    then show ?thesis by (simp add: getProp_cases subRecordOk_def)
  next
    case False
    then show ?thesis
      using lodgingOf_returns[of r] Cons.IH
      by (cases "lodgingOf r") (simp_all add: getProp_cases)
  qed
qed

lemma subRatesLoop_length:
  "subRatesLoop rs acc = Inr qs \<Longrightarrow> length qs = length acc + length rs"
proof (induction rs arbitrary: acc)
  case Nil
  then show ?case by simp
next
  case (Cons r rs)
  then show ?case
    by (cases "getProp r ''meals''"; cases "lodgingOf r") fastforce+
qed

lemma forEachSubRate_returns: "returns (forEachSubRate mainItem acc) = recordOk mainItem"
proof (cases "isNullish mainItem")
  case True
  then show ?thesis by (simp add: forEachSubRate_def recordOk_def getProp_cases)
next
  case False
  then show ?thesis
    by (cases "getPropOpt mainItem ''rate''")
       (simp_all add: forEachSubRate_def recordOk_def getProp_cases orElse_def
          subRatesLoop_returns)
qed

lemma typeErrorOnly_forEachSubRate: "typeErrorOnly (forEachSubRate mainItem acc)"
  unfolding forEachSubRate_def
  by (auto intro!: typeErrorOnly_bindE typeErrorOnly_getProp typeErrorOnly_subRatesLoop
           split: jsval.splits)

lemma mainLoop_returns: "returns (mainLoop items acc) = list_all recordOk items"
proof (induction items arbitrary: acc)
  case Nil
  show ?case by simp
next
  case (Cons mainItem rest)
  then show ?case
    using forEachSubRate_returns[of mainItem acc]
    by (cases "forEachSubRate mainItem acc") simp_all
qed

lemma typeErrorOnly_mainLoop: "typeErrorOnly (mainLoop items acc)"
  by (induction items arbitrary: acc)
     (auto intro!: typeErrorOnly_bindE typeErrorOnly_forEachSubRate)

lemma normalizeRates_returns: "returns (normalizeRates rawRates) = shapeOk rawRates"
  by (simp add: normalizeRates_def shapeOk_def mainLoop_returns)

lemma typeErrorOnly_normalizeRates: "typeErrorOnly (normalizeRates rawRates)"
  by (simp add: normalizeRates_def typeErrorOnly_mainLoop)

lemma minLoop_Fin: "minLoop (Fin a) (map Fin is) = Fin (fold min is a)"
  by (induction "is" arbitrary: a) (auto simp: min_def)

lemma maxLoop_Fin: "maxLoop (Fin a) (map Fin is) = Fin (fold max is a)"
  by (induction "is" arbitrary: a) (auto simp: max_def)

lemma Math_min_numbers:
  "is \<noteq> [] \<Longrightarrow> Math_min (map (\<lambda>i. JNum (Fin i)) is) = Inr (Fin (Min (set is)))"
proof (cases "is")
  case Nil
  then show "is \<noteq> [] \<Longrightarrow> ?thesis" by simp
next
  case (Cons i js)
  have "mapE toNumber (map (\<lambda>i. JNum (Fin i)) is) = Inr (map Fin is)"
    by (induction "is") simp_all
  then show ?thesis
    using minLoop_Fin[of i js] Min.set_eq_fold[of i js] by (simp add: Math_min_def Cons)
qed

lemma Math_max_numbers:
  "is \<noteq> [] \<Longrightarrow> Math_max (map (\<lambda>i. JNum (Fin i)) is) = Inr (Fin (Max (set is)))"
proof (cases "is")
  case Nil
  then show "is \<noteq> [] \<Longrightarrow> ?thesis" by simp
next
  case (Cons i js)
  have "mapE toNumber (map (\<lambda>i. JNum (Fin i)) is) = Inr (map Fin is)"
    by (induction "is") simp_all
  then show ?thesis
    using maxLoop_Fin[of i js] Max.set_eq_fold[of i js] by (simp add: Math_max_def Cons)
qed

lemma lodgingOf_numeric_breakdown:
  assumes "\<not> isNullish r" and "breakdown r = Some ms"
    and "list_all (\<lambda>m. \<not> isNullish m) ms"
    and "map (\<lambda>m. getPropOpt m ''value'') ms = map (\<lambda>i. JNum (Fin i)) is" and "is \<noteq> []"
  shows "lodgingOf r =
           Inr (if Min (set is) = Max (set is) then JNum (Fin (Min (set is)))
                else JStr (numToString (Fin (Min (set is))) @ ''-'' @
                           numToString (Fin (Max (set is)))))"
  using assms
  by (simp add: lodgingOf_breakdown monthPrices_Inr Math_min_numbers Math_max_numbers
        strictEqNum_def)

lemma lodgingOf_examples:
  "lodgingOf (subRecord m [JNum (Fin 100), JNum (Fin 100), JNum (Fin 100)]) = Inr (JNum (Fin 100))"
  "lodgingOf (subRecord m [JNum (Fin 80), JNum (Fin 120)]) = Inr (JStr ''80-120'')"
  "lodgingOf (JObj [(''meals'', m)]) = Inr (JStr ''N/A'')"
  by (simp_all add: subRecord_def lodgingOf_def monthPrices_def Math_min_def Math_max_def
        strictEqNum_def digitsOf.simps)

text \<open>
  Claim C1 does not hold as it is written: \<open>normalizeRates\<close> throws a TypeError on a
  \<^verbatim>\<open>null\<close> payload, on a \<^verbatim>\<open>null\<close> record of a list, and on a record whose
  \<^verbatim>\<open>rate\<close> is a single object instead of a list.
\<close>

theorem normalizeRates_raises_counterexample:
  "normalizeRates JNull = Inl TypeError
   \<and> normalizeRates (JArr [JNull]) = Inl TypeError
   \<and> normalizeRates (JArr [JObj [(''rate'', JObj [(''meals'', JNum (Fin 79))])]]) = Inl TypeError"
  by (simp add: normalizeRates_def forEachSubRate_def orElse_def)

text \<open>
  Claim C1, amended: \<open>normalizeRates\<close> returns a list of quotes exactly on the payloads
  of the shape \<open>shapeOk\<close> (a bare record counting as a list of one): no record, no
  sub-record and no breakdown entry is \<^verbatim>\<open>null\<close>, every \<^verbatim>\<open>rate\<close> is missing (falsy) or a
  list, and every breakdown value converts to a number. On every other payload it throws
  a TypeError. A sub-record without a monthly breakdown (\<^verbatim>\<open>months\<close> missing, \<^verbatim>\<open>month\<close>
  missing or no list) gets the lodging \<^verbatim>\<open>"N/A"\<close>.
\<close>

theorem normalizeRates_returns_iff_shapeOk:
  "(\<exists>qs. normalizeRates rawRates = Inr qs) = shapeOk rawRates
   \<and> (\<not> shapeOk rawRates \<longrightarrow> normalizeRates rawRates = Inl TypeError)
   \<and> (\<forall>r. \<not> isNullish r \<and> breakdown r = None \<longrightarrow> lodgingOf r = Inr (JStr ''N/A''))"
  using normalizeRates_returns[of rawRates] typeErrorOnly_normalizeRates[of rawRates]
  by (auto simp: returns_iff lodgingOf_absent dest: not_returns)

theorem normalizeRates_returns_iff_shapeOk_witness:
  "shapeOk gsaRates
   \<and> normalizeRates gsaRates = Inr [\<lparr>lodging = JNum (Fin 150), mie = JNum (Fin 79)\<rparr>]
   \<and> \<not> shapeOk (JArr [JNull]) \<and> normalizeRates (JArr [JNull]) = Inl TypeError
   \<and> \<not> isNullish (JObj [(''meals'', JNum (Fin 79))])
   \<and> breakdown (JObj [(''meals'', JNum (Fin 79))]) = None
   \<and> lodgingOf (JObj [(''meals'', JNum (Fin 79))]) = Inr (JStr ''N/A'')"
proof -
  have ok: "shapeOk gsaRates"
    by (simp add: shapeOk_def gsaRates_def recordOk_def subRecordOk_def breakdown_def
          entryOk_def subRecord_def getPropOpt_def)
  have quotes: "normalizeRates gsaRates = Inr [\<lparr>lodging = JNum (Fin 150), mie = JNum (Fin 79)\<rparr>]"
    by (simp add: gsaRates_def subRecord_def normalizeRates_def forEachSubRate_def orElse_def
          lodgingOf_def monthPrices_def Math_min_def Math_max_def strictEqNum_def)
  have bad: "\<not> shapeOk (JArr [JNull])"
    by (simp add: shapeOk_def recordOk_def)
  have none: "\<not> isNullish (JObj [(''meals'', JNum (Fin 79))])
              \<and> breakdown (JObj [(''meals'', JNum (Fin 79))]) = None"
    by (simp add: breakdown_def getPropOpt_def)
  show ?thesis
    using ok quotes bad none
      normalizeRates_returns_iff_shapeOk[of "JArr [JNull]"]
    by simp
qed

text \<open>
  Claim C2 on an empty monthly breakdown: the claim says the lodging is \<^verbatim>\<open>"N/A"\<close>; the
  script takes \<^verbatim>\<open>Math.min()\<close> and \<^verbatim>\<open>Math.max()\<close> of no argument, which are
  \<^verbatim>\<open>Infinity\<close> and \<^verbatim>\<open>-Infinity\<close>, and emits their range. (On a breakdown that is not
  empty the lodging is as the claim says, \<open>lodgingOf_numeric_breakdown\<close>, and on an absent
  one it is \<^verbatim>\<open>"N/A"\<close>, \<open>lodgingOf_absent\<close>.)
\<close>

theorem lodgingOf_empty_breakdown:
  "lodgingOf (subRecord (JNum (Fin 79)) []) = Inr (JStr ''Infinity--Infinity'')
   \<and> normalizeRates (JArr [JObj [(''rate'', JArr [subRecord (JNum (Fin 79)) []])]])
       = Inr [\<lparr>lodging = JStr ''Infinity--Infinity'', mie = JNum (Fin 79)\<rparr>]"
  by (simp add: subRecord_def normalizeRates_def forEachSubRate_def orElse_def lodgingOf_def
        monthPrices_def Math_min_def Math_max_def strictEqNum_def)

section \<open>Properties of the deduplication\<close>

lemma rateKey_cases: "rateKey r = (if hasKey r then Inr (keyText r) else Inl TypeError)"
proof -
  have "typeErrorOnly (rateKey r)"
    unfolding rateKey_def by (intro typeErrorOnly_bindE typeErrorOnly_toStr) simp
  then show ?thesis
    by (cases "rateKey r") (simp_all add: hasKey_def keyText_def)
qed

lemma dedupeLoop_keepNew:
  "dedupeLoop rs seen unique =
     (if list_all hasKey rs then Inr (unique @ keepNew keyText seen rs) else Inl TypeError)"
  by (induction rs arbitrary: seen unique) (auto simp: bindE_def rateKey_cases)

lemma keepNew_index:
  "keepNew K seen xs =
     map (nth xs) (filter (\<lambda>i. K (xs ! i) \<notin> seen \<union> K ` set (take i xs)) [0..<length xs])"
proof (induction xs arbitrary: seen)
  case Nil
  then show ?case by simp
next
  case (Cons x xs)
  let ?P = "\<lambda>s ys i. K (ys ! i) \<notin> s \<union> K ` set (take i ys)"
  have upt: "[0..<length (x # xs)] = 0 # map Suc [0..<length xs]"
    by (simp add: upt_conv_Cons map_Suc_upt del: upt_Suc)
  have shift: "map (nth (x # xs)) (filter (?P seen (x # xs)) (map Suc [0..<length xs])) =
               map (nth xs) (filter (\<lambda>i. ?P seen (x # xs) (Suc i)) [0..<length xs])"
    by (simp only: filter_map map_map comp_def nth_Cons_Suc)
  show ?case
  proof (cases "K x \<in> seen")
    case True
    have "filter (\<lambda>i. ?P seen (x # xs) (Suc i)) [0..<length xs] = filter (?P seen xs) [0..<length xs]"
      by (rule filter_cong) (use True in auto)
    with True shift show ?thesis
      unfolding upt by (simp add: Cons.IH)
  next
    case False
    have "filter (\<lambda>i. ?P seen (x # xs) (Suc i)) [0..<length xs] =
          filter (?P (insert (K x) seen) xs) [0..<length xs]"
      by (rule filter_cong) auto
    with False shift show ?thesis
      unfolding upt by (simp add: Cons.IH)
  qed
qed

lemma keepNew_keys: "K ` set (keepNew K seen xs) = K ` set xs - seen"
  by (induction xs arbitrary: seen) auto

lemma keepNew_distinct: "distinct (map K (keepNew K seen xs))"
  by (induction xs arbitrary: seen) (auto simp: keepNew_keys)

lemma keepNew_subset: "set (keepNew K seen xs) \<subseteq> set xs"
  by (induction xs arbitrary: seen) auto

lemma keepNew_id: "distinct (map K xs) \<Longrightarrow> K ` set xs \<inter> seen = {} \<Longrightarrow> keepNew K seen xs = xs"
  by (induction xs arbitrary: seen) auto

lemma keepNew_idem: "keepNew K seen (keepNew K seen xs) = keepNew K seen xs"
  by (rule keepNew_id) (auto simp: keepNew_distinct keepNew_keys)

lemma keepNew_map: "map K (keepNew K seen xs) = keepNew id seen (map K xs)"
  by (induction xs arbitrary: seen) auto

lemma hasKey_primitive: "isPrimitive (lodging r) \<Longrightarrow> isPrimitive (mie r) \<Longrightarrow> hasKey r"
  by (cases "lodging r"; cases "mie r") (simp_all add: hasKey_def rateKey_def orElse_def)

text \<open>
  Claim C3 does not hold as it is written: a quote whose meals figure is \<^verbatim>\<open>0\<close> and one
  whose meals figure is missing have different pairs, and are collapsed; \<^verbatim>\<open>||\<close> puts
  the marker in the place of every falsy value.
\<close>

theorem dedupeRates_pairs_counterexample:
  "specKey \<lparr>lodging = JNum (Fin 150), mie = JNum (Fin 0)\<rparr>
     \<noteq> specKey \<lparr>lodging = JNum (Fin 150), mie = JUndefined\<rparr>
   \<and> dedupeRates [\<lparr>lodging = JNum (Fin 150), mie = JNum (Fin 0)\<rparr>,
                   \<lparr>lodging = JNum (Fin 150), mie = JUndefined\<rparr>]
       = Inr [\<lparr>lodging = JNum (Fin 150), mie = JNum (Fin 0)\<rparr>]"
  by (simp add: specKey_def naIfMissing_def dedupeRates_def rateKey_def orElse_def
        digitsOf.simps)

text \<open>
  Claim C3, amended: the key of a quote is the text of its lodging, a dash and the text
  of its meals figure, the marker \<^verbatim>\<open>N/A\<close> standing for every falsy value (missing,
  \<^verbatim>\<open>null\<close>, \<^verbatim>\<open>0\<close>, \<^verbatim>\<open>NaN\<close>, the empty text, \<^verbatim>\<open>false\<close>). \<open>dedupeRates\<close> keeps the quote
  at a position exactly when no quote before it has its key, in the order of the list;
  and two quotes are collapsed to the first exactly when their keys are the same text.
\<close>

theorem dedupeRates_first_of_each_key:
  assumes "list_all hasKey rates"
  shows "dedupeRates rates =
           Inr (map (nth rates)
                  (filter (\<lambda>i. keyText (rates ! i) \<notin> keyText ` set (take i rates))
                     [0..<length rates]))
         \<and> (\<forall>a b. hasKey a \<and> hasKey b \<longrightarrow>
               dedupeRates [a, b] = Inr (if keyText a = keyText b then [a] else [a, b]))"
proof -
  have "dedupeRates rates = Inr (keepNew keyText {} rates)"
    using assms by (simp add: dedupeRates_def dedupeLoop_keepNew)
  moreover have "hasKey a \<and> hasKey b \<longrightarrow>
               dedupeRates [a, b] = Inr (if keyText a = keyText b then [a] else [a, b])" for a b
    by (auto simp add: dedupeRates_def dedupeLoop_keepNew)
  ultimately show ?thesis
    by (simp add: keepNew_index)
qed

lemma example_keys: "rateKey flatQuote = Inr ''150-79''" "rateKey rangeQuote = Inr ''80-120-79''"
  by (simp_all add: flatQuote_def rangeQuote_def rateKey_def orElse_def digitsOf.simps)

theorem dedupeRates_first_of_each_key_witness:
  "list_all hasKey [flatQuote, flatQuote, rangeQuote]
   \<and> dedupeRates [flatQuote, flatQuote, rangeQuote] = Inr [flatQuote, rangeQuote]
   \<and> hasKey flatQuote \<and> hasKey rangeQuote
   \<and> dedupeRates [flatQuote, rangeQuote] = Inr [flatQuote, rangeQuote]"
proof -
  have k: "keyText flatQuote = ''150-79''" "keyText rangeQuote = ''80-120-79''"
    by (simp_all add: keyText_def example_keys)
  have h: "list_all hasKey [flatQuote, flatQuote, rangeQuote]"
    by (simp add: hasKey_def example_keys)
  have upt: "[0..<length [flatQuote, flatQuote, rangeQuote]] = [0, 1, 2]"
    by (simp add: upt_rec)
  have "map (nth [flatQuote, flatQuote, rangeQuote])
          (filter (\<lambda>i. keyText ([flatQuote, flatQuote, rangeQuote] ! i)
                     \<notin> keyText ` set (take i [flatQuote, flatQuote, rangeQuote])) [0, 1, 2])
        = [flatQuote, rangeQuote]"
    by (simp add: k take_Suc_conv_app_nth numeral_2_eq_2)
  with dedupeRates_first_of_each_key[OF h] h upt show ?thesis
    by (simp add: k)
qed

text \<open>
  Claim C4: deduplicating twice is deduplicating once (also when a key cannot be built:
  both throw), and the keys of the result are the distinct keys of the list, each at the
  place of its first occurrence.
\<close>

theorem dedupeRates_idempotent:
  "bindE (dedupeRates rates) dedupeRates = dedupeRates rates
   \<and> (\<forall>u. dedupeRates rates = Inr u \<longrightarrow>
          distinct (map keyText u)
          \<and> map keyText u =
              (let ks = map keyText rates
               in map (nth ks) (filter (\<lambda>i. ks ! i \<notin> set (take i ks)) [0..<length ks])))"
proof (cases "list_all hasKey rates")
  case False
  then show ?thesis by (simp add: dedupeRates_def dedupeLoop_keepNew)
next
  case True
  let ?u = "keepNew keyText {} rates"
  have u: "dedupeRates rates = Inr ?u"
    using True by (simp add: dedupeRates_def dedupeLoop_keepNew)
  have "set ?u \<subseteq> set rates" by (rule keepNew_subset)
  with True have all: "list_all hasKey ?u" by (auto simp: list_all_iff)
  have idem: "dedupeRates ?u = Inr ?u"
    using all by (simp add: dedupeRates_def dedupeLoop_keepNew keepNew_idem)
  have keys: "map keyText ?u =
              (let ks = map keyText rates
               in map (nth ks) (filter (\<lambda>i. ks ! i \<notin> set (take i ks)) [0..<length ks]))"
    using keepNew_index[of id "{}" "map keyText rates"] by (simp add: keepNew_map Let_def)
  show ?thesis
    using u idem keys keepNew_distinct[of keyText "{}" rates] by simp
qed

theorem dedupeRates_idempotent_witness:
  "dedupeRates [flatQuote, flatQuote, rangeQuote] = Inr [flatQuote, rangeQuote]
   \<and> bindE (dedupeRates [flatQuote, flatQuote, rangeQuote]) dedupeRates
       = Inr [flatQuote, rangeQuote]
   \<and> distinct (map keyText [flatQuote, rangeQuote])
   \<and> map keyText [flatQuote, rangeQuote] = [''150-79'', ''80-120-79'']"
proof -
  have d: "dedupeRates [flatQuote, flatQuote, rangeQuote] = Inr [flatQuote, rangeQuote]"
    by (simp add: dedupeRates_def example_keys)
  have k: "keyText flatQuote = ''150-79''" "keyText rangeQuote = ''80-120-79''"
    by (simp_all add: keyText_def example_keys)
  from dedupeRates_idempotent[of "[flatQuote, flatQuote, rangeQuote]"] d k show ?thesis
    by simp
qed

section \<open>Properties of the neighbor discovery\<close>

lemma zonesLoop_keepZones:
  "zonesLoop els targetZip seen zones =
     (if list_all (\<lambda>el. \<not> isNullish el) els then Inr (zones @ keepZones els targetZip seen)
      else Inl TypeError)"
  by (induction els arbitrary: seen zones) (auto simp: getProp_cases codeOf_def Let_def)

lemma strictEq_primitive: "isPrimitive a \<Longrightarrow> truthy a \<Longrightarrow> strictEq a b = (a = b)"
  by (cases a) auto

lemma sameValueZero_primitive: "isPrimitive a \<Longrightarrow> sameValueZero a b = (a = b)"
  by (cases a) auto

lemma keepZones_codes:
  "z \<in> set (keepZones els targetZip seen) \<Longrightarrow>
   truthy (postalCode z) \<and> \<not> strictEq (postalCode z) targetZip
   \<and> \<not> list_ex (sameValueZero (postalCode z)) seen \<and> geojson z = JUndefined"
  by (induction els arbitrary: seen) (auto simp: list_ex_iff split: if_splits)

lemma keepZones_distinct:
  "distinct (filter isPrimitive (map postalCode (keepZones els targetZip seen)))"
proof (induction els arbitrary: seen)
  case Nil
  show ?case by simp
next
  case (Cons el els)
  have "codeOf el \<notin> postalCode ` set (keepZones els targetZip (seen @ [codeOf el]))"
    if "isPrimitive (codeOf el)"
  proof
    assume "codeOf el \<in> postalCode ` set (keepZones els targetZip (seen @ [codeOf el]))"
    then obtain z where z: "z \<in> set (keepZones els targetZip (seen @ [codeOf el]))"
      and eq: "postalCode z = codeOf el" by auto
    from keepZones_codes[OF z] have "\<not> sameValueZero (postalCode z) (codeOf el)"
      by (simp add: list_ex_iff)
    with that eq show False by (simp add: sameValueZero_primitive)
  qed
  with Cons.IH show ?case by auto
qed

lemma keepZones_first:
  "z \<in> set (keepZones els targetZip seen) \<Longrightarrow>
   \<exists>pre el post. els = pre @ el # post \<and> codeOf el = postalCode z
     \<and> getPropOpt el ''geometry'' = geometry z
     \<and> (\<forall>e\<in>set pre. isPrimitive (postalCode z) \<longrightarrow> codeOf e \<noteq> postalCode z)"
proof (induction els arbitrary: seen)
  case Nil
  then show ?case by simp
next
  case (Cons a els)
  let ?skip = "\<not> truthy (codeOf a) \<or> strictEq (codeOf a) targetZip
               \<or> list_ex (sameValueZero (codeOf a)) seen"
  have later: ?case
    if z: "z \<in> set (keepZones els targetZip seen')"
      and a: "isPrimitive (postalCode z) \<longrightarrow> codeOf a \<noteq> postalCode z" for seen'
  proof -
    from Cons.IH[OF z] obtain pre el post where p: "els = pre @ el # post"
      "codeOf el = postalCode z" "getPropOpt el ''geometry'' = geometry z"
      "\<forall>e\<in>set pre. isPrimitive (postalCode z) \<longrightarrow> codeOf e \<noteq> postalCode z" by blast
    have "a # els = (a # pre) @ el # post" using p(1) by simp
    moreover have "\<forall>e\<in>set (a # pre). isPrimitive (postalCode z) \<longrightarrow> codeOf e \<noteq> postalCode z"
      using a p(4) by simp
    ultimately show ?thesis using p(2,3) by blast
  qed
  show ?case
  proof (cases ?skip)
    case True
    with Cons.prems have z: "z \<in> set (keepZones els targetZip seen)" by simp
    have "isPrimitive (postalCode z) \<longrightarrow> codeOf a \<noteq> postalCode z"
      using keepZones_codes[OF z] True
      by (auto simp: strictEq_primitive sameValueZero_primitive list_ex_iff)
    with z show ?thesis by (rule later)
  next
    case False
    show ?thesis
    proof (cases "z \<in> set (keepZones els targetZip (seen @ [codeOf a]))")
      case True
      have "isPrimitive (postalCode z) \<longrightarrow> codeOf a \<noteq> postalCode z"
        using keepZones_codes[OF True] by (auto simp: sameValueZero_primitive list_ex_iff)
      with True show ?thesis by (rule later)
    next
      case notin: False
      with False Cons.prems
      have "codeOf a = postalCode z" "getPropOpt a ''geometry'' = geometry z"
        by auto
      then have "a # els = [] @ a # els \<and> codeOf a = postalCode z
        \<and> getPropOpt a ''geometry'' = geometry z
        \<and> (\<forall>e\<in>set []. isPrimitive (postalCode z) \<longrightarrow> codeOf e \<noteq> postalCode z)" by simp
      then show ?thesis by blast
    qed
  qed
qed

lemma bindS_liftE [simp]: "bindS (liftE r) f w = (case r of Inl e \<Rightarrow> (Inl e, w) | Inr v \<Rightarrow> f v w)"
  by (cases r) (simp_all add: bindS_def liftE_def)

lemma bindS_doS [simp]: "bindS (doS g) f w = f () (g w)"
  by (simp add: bindS_def doS_def)

lemma bindS_fetch [simp]:
  "bindS (fetch net req) f w =
     (case net req of
        Rejected \<Rightarrow> (Inl NetworkError, w\<lparr>requests := requests w @ [req]\<rparr>)
      | Response ok body \<Rightarrow> f (ok, body) (w\<lparr>requests := requests w @ [req]\<rparr>))"
  by (cases "net req") (simp_all add: bindS_def fetch_def)

lemma liftE_apply [simp]: "liftE r w = (r, w)"
  by (simp add: liftE_def)

lemma doS_apply [simp]: "doS g w = (Inr (), g w)"
  by (simp add: doS_def)

lemma fetchSurroundingZips_eq:
  "fetchSurroundingZips net c targetZip w =
     (surroundingResult (net (OverpassAround (fst c) (snd c))) targetZip,
      w\<lparr>requests := requests w @ [OverpassAround (fst c) (snd c)]\<rparr>)"
  by (simp add: fetchSurroundingZips_def surroundingResult_def bindE_def
           split: response.splits sum.splits)

lemma surroundingResult_zones:
  assumes "surroundingResult answer targetZip = Inr zones"
  shows "zones = [] \<or> (\<exists>data els. answer = Response True (Some data)
           \<and> iterate (orElse (getPropOpt data ''elements'') (JArr [])) = Inr els
           \<and> zones = keepZones els targetZip [])"
  using assms
  by (auto simp: surroundingResult_def json_def getProp_cases zonesLoop_keepZones bindE_def
           split: response.splits if_splits option.splits sum.splits)

text \<open>
  Claim C6: among the zones that \<open>fetchSurroundingZips\<close> returns, no postal code is the
  target's and no postal code occurs twice (postal codes are texts: the statement holds
  for every code that is no array and no object), and the zone of a postal code has the
  geometry of the first element of the answer that carries that code.
\<close>

theorem fetchSurroundingZips_excludes_target_and_duplicates:
  assumes "fetchSurroundingZips net c targetZip w = (Inr zones, w')"
  shows "(\<forall>z\<in>set zones. truthy (postalCode z)
            \<and> (isPrimitive (postalCode z) \<longrightarrow> postalCode z \<noteq> targetZip))
         \<and> distinct (filter isPrimitive (map postalCode zones))
         \<and> (\<forall>data els. net (OverpassAround (fst c) (snd c)) = Response True (Some data)
              \<and> iterate (orElse (getPropOpt data ''elements'') (JArr [])) = Inr els \<longrightarrow>
              (\<forall>z\<in>set zones. \<exists>pre el post. els = pre @ el # post
                  \<and> codeOf el = postalCode z \<and> getPropOpt el ''geometry'' = geometry z
                  \<and> (\<forall>e\<in>set pre. isPrimitive (postalCode z) \<longrightarrow> codeOf e \<noteq> postalCode z)))"
proof -
  from assms have res: "surroundingResult (net (OverpassAround (fst c) (snd c))) targetZip = Inr zones"
    by (simp add: fetchSurroundingZips_eq)
  from surroundingResult_zones[OF res] show ?thesis
  proof
    assume "zones = []"
    then show ?thesis by simp
  next
    assume "\<exists>data els. net (OverpassAround (fst c) (snd c)) = Response True (Some data)
           \<and> iterate (orElse (getPropOpt data ''elements'') (JArr [])) = Inr els
           \<and> zones = keepZones els targetZip []"
    then obtain data els where d: "net (OverpassAround (fst c) (snd c)) = Response True (Some data)"
      "iterate (orElse (getPropOpt data ''elements'') (JArr [])) = Inr els"
      "zones = keepZones els targetZip []" by blast
    have 1: "\<forall>z\<in>set zones. truthy (postalCode z)
            \<and> (isPrimitive (postalCode z) \<longrightarrow> postalCode z \<noteq> targetZip)"
    proof
      fix z assume "z \<in> set zones"
      with d(3) have "truthy (postalCode z)" "\<not> strictEq (postalCode z) targetZip"
        using keepZones_codes[of z els targetZip "[]"] by auto
      then show "truthy (postalCode z)
            \<and> (isPrimitive (postalCode z) \<longrightarrow> postalCode z \<noteq> targetZip)"
        by (auto simp: strictEq_primitive)
    qed
    have 2: "distinct (filter isPrimitive (map postalCode zones))"
      using d(3) by (simp add: keepZones_distinct)
    have 3: "\<forall>z\<in>set zones. \<exists>pre el post. els = pre @ el # post
                  \<and> codeOf el = postalCode z \<and> getPropOpt el ''geometry'' = geometry z
                  \<and> (\<forall>e\<in>set pre. isPrimitive (postalCode z) \<longrightarrow> codeOf e \<noteq> postalCode z)"
      using d(3) keepZones_first[of _ els targetZip "[]"] by blast
    show ?thesis using 1 2 3 d(1,2) by auto
  qed
qed

theorem fetchSurroundingZips_excludes_target_and_duplicates_witness:
  "fetchSurroundingZips (austinNetwork noMatch gsaAnswer (Response True (Some austinElements)))
      austinCenter (JStr ''78701'') freshWorld
     = (Inr [zone78702, zone78703],
        freshWorld\<lparr>requests := [OverpassAround (ParseFloat ''30.27'') (ParseFloat ''-97.74'')]\<rparr>)
   \<and> list_all (\<lambda>z. truthy (postalCode z) \<and> isPrimitive (postalCode z)
                    \<and> postalCode z \<noteq> JStr ''78701'') [zone78702, zone78703]
   \<and> distinct (map postalCode [zone78702, zone78703])"
proof -
  have f: "fetchSurroundingZips (austinNetwork noMatch gsaAnswer (Response True (Some austinElements)))
      austinCenter (JStr ''78701'') freshWorld
     = (Inr [zone78702, zone78703],
        freshWorld\<lparr>requests := [OverpassAround (ParseFloat ''30.27'') (ParseFloat ''-97.74'')]\<rparr>)"
    by code_simp
  have p: "isPrimitive (postalCode zone78702)" "isPrimitive (postalCode zone78703)"
    by (simp_all add: zone78702_def zone78703_def)
  from fetchSurroundingZips_excludes_target_and_duplicates[OF f] f p show ?thesis
    by simp
qed

section \<open>Properties of the fetchers and of the pipeline\<close>

lemma getPropOpt_falsy: "\<not> truthy v \<Longrightarrow> getPropOpt v name = JUndefined"
  by (cases v) (simp_all add: getPropOpt_def)

lemma postcodeOf_truthy:
  "truthy (postcodeOf place) =
     (truthy (getPropOpt place ''address'')
      \<and> truthy (getPropOpt (getPropOpt place ''address'') ''postcode''))"
  by (cases "truthy (getPropOpt place ''address'')")
     (simp_all add: postcodeOf_def getPropOpt_falsy)

lemma resolveZip_direct:
  "\<not> isNullish place \<Longrightarrow> truthy (postcodeOf place) \<Longrightarrow>
   resolveZip net place w = (Inr (postcodeOf place), w)"
  by (simp add: resolveZip_def getProp_cases postcodeOf_truthy)
     (simp add: postcodeOf_def)

lemma resolveZip_lookup:
  assumes "\<not> isNullish place" and "\<not> truthy (postcodeOf place)"
    and "toStr (getPropOpt place ''lat'') = Inr la" and "toStr (getPropOpt place ''lon'') = Inr lo"
  shows "resolveZip net place w =
           (reverseResult (net (ReverseLookup la lo)),
            w\<lparr>requests := requests w @ [ReverseLookup la lo]\<rparr>)"
proof -
  have "\<not> (truthy (getPropOpt place ''address'')
       \<and> truthy (getPropOpt (getPropOpt place ''address'') ''postcode''))"
    using assms(2) by (simp add: postcodeOf_truthy)
  then show ?thesis
    using assms(1,3,4)
    by (cases "net (ReverseLookup la lo)")
       (auto simp: resolveZip_def reverseResult_def getProp_cases json_def
          split: option.splits)
qed

lemma fetchZipBoundary_eq:
  "toStr zip' = Inr z \<Longrightarrow>
   fetchZipBoundary net zip' w =
     (boundaryResult (net (BoundarySearch z)), w\<lparr>requests := requests w @ [BoundarySearch z]\<rparr>)"
  by (auto simp: fetchZipBoundary_def boundaryResult_def json_def
           split: response.splits option.splits sum.splits)

lemma fetchPerDiem_eq:
  "toStr zip' = Inr z \<Longrightarrow>
   fetchPerDiem net zip' w =
     (Inr (ratesResult (net (WorkerRates z (selectedYear w)))),
      w\<lparr>requests := requests w @ [WorkerRates z (selectedYear w)]\<rparr>)"
  by (auto simp: fetchPerDiem_def ratesResult_def tryCatch_def json_def Let_def
           split: response.splits option.splits sum.splits)

lemma centeringMessage_Inr:
  "centeringMessage label zip' = Inr m \<Longrightarrow> \<exists>z. toStr zip' = Inr z"
  by (cases "toStr label"; cases "toStr zip'") (simp_all add: centeringMessage_def)

lemma renderSurrounding_eq:
  "renderSurrounding lib net c targetZip w =
     (let w' = (updateStatus (Text ''Loading surrounding Zip Codes...'') False True w)
                 \<lparr>requests := requests w @ [OverpassAround (fst c) (snd c)]\<rparr>
      in case surroundingResult (net (OverpassAround (fst c) (snd c))) targetZip of
           Inl e \<Rightarrow> (Inl e, w')
         | Inr zones \<Rightarrow>
             (Inr (),
              if zones = []
              then updateStatus
                     (Text ''No nearby postal boundaries found. Showing target only.'') False False w'
              else attachNeighbors lib zones w'))"
  by (simp add: renderSurrounding_def bindS_def fetchSurroundingZips_eq updateStatus_def Let_def
           split: sum.splits)

lemma updateView_eq:
  assumes "centeringMessage label zip' = Inr m"
  shows "updateView lib net lat lon zip' label w =
     (case fetchZipBoundary net zip'
             (updateStatus (Text m) False True (w\<lparr>view := SetView (lat, lon) 11\<rparr>)) of
        (Inl e, w2) \<Rightarrow> (Inl e, w2)
      | (Inr g, w2) \<Rightarrow>
          (case drawTarget lib g (lat, lon) zip' w2 of
             (Inl e, w2') \<Rightarrow> (Inl e, w2')
           | (Inr u0, w2') \<Rightarrow>
          (case fetchPerDiem net zip' w2' of
             (Inl e, w3) \<Rightarrow> (Inl e, w3)
           | (Inr rs, w3) \<Rightarrow>
               (case displayRates zip' rs w3 of
                  (Inl e, w4) \<Rightarrow> (Inl e, w4)
                | (Inr u, w4) \<Rightarrow>
                    (case renderSurrounding lib net (lat, lon) zip' w4 of
                       (Inl e, w5) \<Rightarrow> (Inl e, w5)
                     | (Inr u', w5) \<Rightarrow>
                         (Inr (),
                          updateStatus
                            (Text ''Click any shaded area to see its per diem rate.'')
                            False False w5))))))"
  using assms
  by (simp add: updateView_def Let_def bindS_def split: prod.splits sum.splits)

lemma drawTarget_marker:
  "\<not> truthy g \<Longrightarrow>
   drawTarget lib g c zip' w
     = (Inr (), w\<lparr>targetLayer := Some \<lparr>shape = CircleMarker c, boundZip = zip'\<rparr>\<rparr>)"
  by (simp add: drawTarget_def)

lemma drawTarget_frame:
  "surroundingLayer (snd (drawTarget lib g c zip' w)) = surroundingLayer w
   \<and> status (snd (drawTarget lib g c zip' w)) = status w
   \<and> requests (snd (drawTarget lib g c zip' w)) = requests w
   \<and> yearSelect (snd (drawTarget lib g c zip' w)) = yearSelect w"
  by (simp add: drawTarget_def libCall_def split: option.splits)

lemma attachNeighbors_frame:
  "targetLayer (attachNeighbors lib zs w) = targetLayer w
   \<and> status (attachNeighbors lib zs w) = status w
   \<and> requests (attachNeighbors lib zs w) = requests w"
  by (induction zs arbitrary: w) (auto split: sum.splits option.splits)

lemma rateItemsLoop_frame:
  "targetLayer (snd (rateItemsLoop zip' rs w)) = targetLayer w
   \<and> surroundingLayer (snd (rateItemsLoop zip' rs w)) = surroundingLayer w
   \<and> status (snd (rateItemsLoop zip' rs w)) = status w
   \<and> requests (snd (rateItemsLoop zip' rs w)) = requests w"
  by (induction rs arbitrary: w) (auto split: sum.splits)

lemma displayRates_frame:
  "targetLayer (snd (displayRates zip' rates w)) = targetLayer w
   \<and> surroundingLayer (snd (displayRates zip' rates w)) = surroundingLayer w
   \<and> status (snd (displayRates zip' rates w)) = status w
   \<and> requests (snd (displayRates zip' rates w)) = requests w"
  by (cases "dedupeRates rates") (simp_all add: displayRates_def rateItemsLoop_frame)

lemma renderSurrounding_target:
  "targetLayer (snd (renderSurrounding lib net c targetZip w)) = targetLayer w"
  by (simp add: renderSurrounding_eq Let_def updateStatus_def attachNeighbors_frame
           split: sum.splits)

lemma updateStatus_frame [simp]:
  "targetLayer (updateStatus msg err loading w) = targetLayer w"
  "surroundingLayer (updateStatus msg err loading w) = surroundingLayer w"
  "requests (updateStatus msg err loading w) = requests w"
  "status (updateStatus msg err loading w) = \<lparr>message = msg, isError = err, isLoading = loading\<rparr>"
  by (simp_all add: updateStatus_def)

lemma updateView_target:
  assumes m: "centeringMessage label zip' = Inr m" and z: "toStr zip' = Inr z"
    and b: "boundaryResult (net (BoundarySearch z)) = Inr g" and g: "\<not> truthy g"
  shows "targetLayer (snd (updateView lib net lat lon zip' label w))
           = Some \<lparr>shape = CircleMarker (lat, lon), boundZip = zip'\<rparr>"
proof -
  let ?w2 = "(updateStatus (Text m) False True (w\<lparr>view := SetView (lat, lon) 11\<rparr>))
               \<lparr>requests := requests w @ [BoundarySearch z]\<rparr>"
  let ?w3 = "?w2\<lparr>targetLayer := Some \<lparr>shape = CircleMarker (lat, lon), boundZip = zip'\<rparr>\<rparr>"
  let ?w3' = "?w3\<lparr>requests := requests ?w3 @ [WorkerRates z (selectedYear ?w3)]\<rparr>"
  let ?rs = "ratesResult (net (WorkerRates z (selectedYear ?w3)))"
  have f1: "fetchZipBoundary net zip'
              (updateStatus (Text m) False True (w\<lparr>view := SetView (lat, lon) 11\<rparr>))
            = (Inr g, ?w2)"
    using z b by (simp add: fetchZipBoundary_eq)
  have d0: "drawTarget lib g (lat, lon) zip' ?w2 = (Inr (), ?w3)"
    using g by (rule drawTarget_marker)
  have f2: "fetchPerDiem net zip' ?w3 = (Inr ?rs, ?w3')"
    using z by (simp add: fetchPerDiem_eq)
  obtain r4 w4 where d: "displayRates zip' ?rs ?w3' = (r4, w4)"
    by (cases "displayRates zip' ?rs ?w3'") auto
  have t4: "targetLayer w4 = targetLayer ?w3'"
    using displayRates_frame[of zip' ?rs ?w3'] d by simp
  obtain r5 w5 where r: "renderSurrounding lib net (lat, lon) zip' w4 = (r5, w5)"
    by (cases "renderSurrounding lib net (lat, lon) zip' w4") auto
  have t5: "targetLayer w5 = targetLayer w4"
    using renderSurrounding_target[of lib net "(lat, lon)" zip' w4] r by simp
  have t3: "targetLayer ?w3' = Some \<lparr>shape = CircleMarker (lat, lon), boundZip = zip'\<rparr>"
    by simp
  have "updateView lib net lat lon zip' label w =
          (case r4 of
             Inl e \<Rightarrow> (Inl e, w4)
           | Inr u \<Rightarrow>
               (case r5 of
                  Inl e \<Rightarrow> (Inl e, w5)
                | Inr u' \<Rightarrow>
                    (Inr (),
                     updateStatus (Text ''Click any shaded area to see its per diem rate.'')
                       False False w5)))"
    by (simp only: updateView_eq[OF m] f1 d0 f2 d r prod.case sum.case)
  then show ?thesis
    by (cases r4; cases r5) (simp_all add: t4 t5)
qed

lemma surroundingResult_non_success [simp]:
  "surroundingResult (Response False body) targetZip = Inr []"
  by (simp add: surroundingResult_def)

lemma attachNeighbors_append:
  "attachNeighbors lib (xs @ ys) w = attachNeighbors lib ys (attachNeighbors lib xs w)"
  by (induction xs arbitrary: w) (auto split: sum.splits option.splits)

lemma attachNeighbors_layers:
  "\<exists>new. surroundingLayer (attachNeighbors lib zs w) = surroundingLayer w @ new
     \<and> (\<forall>layer\<in>set new. \<exists>z'\<in>set zs. boundZip layer = postalCode z'
            \<and> toLeafletShape lib z' = Inr (Some (shape layer)))"
proof (induction zs arbitrary: w)
  case Nil
  show ?case by simp
next
  case (Cons z zs)
  show ?case
  proof (cases "toLeafletShape lib z")
    case (Inl e)
    with Cons[of w] show ?thesis by auto
  next
    case (Inr opt)
    show ?thesis
    proof (cases opt)
      case None
      with Inr Cons[of w] show ?thesis by auto
    next
      case (Some layer)
      let ?w = "w\<lparr>surroundingLayer := surroundingLayer w @ [\<lparr>shape = layer, boundZip = postalCode z\<rparr>]\<rparr>"
      from Cons[of ?w] obtain new where
        n: "surroundingLayer (attachNeighbors lib zs ?w) = surroundingLayer ?w @ new"
        "\<forall>layer\<in>set new. \<exists>z'\<in>set zs. boundZip layer = postalCode z'
            \<and> toLeafletShape lib z' = Inr (Some (shape layer))" by blast
      have "surroundingLayer (attachNeighbors lib (z # zs) w)
              = surroundingLayer w @ (\<lparr>shape = layer, boundZip = postalCode z\<rparr> # new)"
        using Inr Some n(1) by simp
      moreover have "\<forall>l\<in>set (\<lparr>shape = layer, boundZip = postalCode z\<rparr> # new).
           \<exists>z'\<in>set (z # zs). boundZip l = postalCode z'
            \<and> toLeafletShape lib z' = Inr (Some (shape l))"
        using Inr Some n(2) by auto
      ultimately show ?thesis by blast
    qed
  qed
qed

lemma distinct_filter_map_inj:
  "distinct (filter P (map f xs)) \<Longrightarrow> x \<in> set xs \<Longrightarrow> y \<in> set xs \<Longrightarrow> P (f x) \<Longrightarrow>
   f x = f y \<Longrightarrow> x = y"
proof -
  assume d: "distinct (filter P (map f xs))" and x: "x \<in> set xs" and y: "y \<in> set xs"
    and p: "P (f x)" and e: "f x = f y"
  from d have "inj_on f (set (filter (P \<circ> f) xs))"
    by (simp add: filter_map distinct_map)
  moreover have "x \<in> set (filter (P \<circ> f) xs)" "y \<in> set (filter (P \<circ> f) xs)"
    using x y p e by simp_all
  ultimately show "x = y" using e by (auto dest: inj_onD)
qed

lemma fetchSurroundingZips_distinct:
  assumes "fetchSurroundingZips net c targetZip w = (Inr zones, w')"
  shows "distinct (filter isPrimitive (map postalCode zones))"
proof -
  from assms have "surroundingResult (net (OverpassAround (fst c) (snd c))) targetZip = Inr zones"
    by (simp add: fetchSurroundingZips_eq)
  from surroundingResult_zones[OF this] show ?thesis
    by (auto simp: keepZones_distinct)
qed

lemma neighbor_non_success_degrades:
  assumes "net (OverpassAround lat lon) = Response False body"
  shows "fetchSurroundingZips net (lat, lon) zip' w
           = (Inr [], w\<lparr>requests := requests w @ [OverpassAround lat lon]\<rparr>)
   \<and> (\<exists>w'. renderSurrounding lib net (lat, lon) zip' w = (Inr (), w')
          \<and> status w' = \<lparr>message = Text ''No nearby postal boundaries found. Showing target only.'',
                          isError = False, isLoading = False\<rparr>
          \<and> surroundingLayer w' = surroundingLayer w \<and> targetLayer w' = targetLayer w)
   \<and> (\<forall>m g w2 w2' rs w3 w4.
          centeringMessage label zip' = Inr m
          \<and> fetchZipBoundary net zip'
               (updateStatus (Text m) False True (w\<lparr>view := SetView (lat, lon) 11\<rparr>)) = (Inr g, w2)
          \<and> drawTarget lib g (lat, lon) zip' w2 = (Inr (), w2')
          \<and> fetchPerDiem net zip' w2' = (Inr rs, w3)
          \<and> displayRates zip' rs w3 = (Inr (), w4) \<longrightarrow>
          (\<exists>w5. updateView lib net lat lon zip' label w = (Inr (), w5)
             \<and> caught (updateView lib net lat lon zip' label) w = w5
             \<and> status w5 = \<lparr>message = Text ''Click any shaded area to see its per diem rate.'',
                             isError = False, isLoading = False\<rparr>
             \<and> targetLayer w5 = targetLayer w4 \<and> surroundingLayer w5 = surroundingLayer w4))"
proof -
  have 1: "fetchSurroundingZips net (lat, lon) zip' w
           = (Inr [], w\<lparr>requests := requests w @ [OverpassAround lat lon]\<rparr>)" for w
    using assms by (simp add: fetchSurroundingZips_eq)
  have 2: "\<exists>w'. renderSurrounding lib net (lat, lon) zip' w = (Inr (), w')
          \<and> status w' = \<lparr>message = Text ''No nearby postal boundaries found. Showing target only.'',
                          isError = False, isLoading = False\<rparr>
          \<and> surroundingLayer w' = surroundingLayer w \<and> targetLayer w' = targetLayer w" for w
    using assms by (simp add: renderSurrounding_eq Let_def)
  have 3: "\<exists>w5. updateView lib net lat lon zip' label w = (Inr (), w5)
             \<and> caught (updateView lib net lat lon zip' label) w = w5
             \<and> status w5 = \<lparr>message = Text ''Click any shaded area to see its per diem rate.'',
                             isError = False, isLoading = False\<rparr>
             \<and> targetLayer w5 = targetLayer w4 \<and> surroundingLayer w5 = surroundingLayer w4"
    if m: "centeringMessage label zip' = Inr m"
      and b: "fetchZipBoundary net zip'
               (updateStatus (Text m) False True (w\<lparr>view := SetView (lat, lon) 11\<rparr>)) = (Inr g, w2)"
      and t: "drawTarget lib g (lat, lon) zip' w2 = (Inr (), w2')"
      and r: "fetchPerDiem net zip' w2' = (Inr rs, w3)"
      and d: "displayRates zip' rs w3 = (Inr (), w4)" for m g w2 w2' rs w3 w4
  proof -
    from 2[of w4] obtain w' where w': "renderSurrounding lib net (lat, lon) zip' w4 = (Inr (), w')"
      "surroundingLayer w' = surroundingLayer w4" "targetLayer w' = targetLayer w4" by blast
    have u: "updateView lib net lat lon zip' label w
              = (Inr (), updateStatus (Text ''Click any shaded area to see its per diem rate.'')
                           False False w')"
      unfolding updateView_eq[OF m] b by (simp add: t r d w'(1))
    show ?thesis
      unfolding u by (simp add: caught_def u w'(2,3))
  qed
  show ?thesis using 1 2 3 by blast
qed

text \<open>
  Claim C5, where the script does not do what the claim says. \<open>fetchSurroundingZips\<close>
  answers a response that is not a success with the empty list, and so shows what it is
  meant to do on a failure of the regional index. But it has no \<^verbatim>\<open>try\<close> around its
  \<^verbatim>\<open>fetch\<close> and its \<^verbatim>\<open>res.json()\<close>, as its sibling \<open>fetchPerDiem\<close> has, which returns
  the empty list when the request is rejected. When the request to the regional index is
  rejected, or the body of the answer is not JSON, \<open>fetchSurroundingZips\<close> throws, and so
  does \<open>renderSurrounding\<close>, whatever the network answers to the other requests. In the
  run on \<^verbatim>\<open>Austin, TX\<close> the error reaches the \<^verbatim>\<open>catch\<close> of the handler, and the run ends
  with the error's message as an error status, where the same run with a response that is
  not a success ends with the closing hint.
\<close>

theorem neighbor_transport_error_escapes:
  "fetchSurroundingZips (net(OverpassAround lat lon := Rejected)) (lat, lon) zip' w
     = (Inl NetworkError, w\<lparr>requests := requests w @ [OverpassAround lat lon]\<rparr>)
   \<and> fetchSurroundingZips (net(OverpassAround lat lon := Response True None)) (lat, lon) zip' w
     = (Inl SyntaxError, w\<lparr>requests := requests w @ [OverpassAround lat lon]\<rparr>)
   \<and> fetchSurroundingZips (net(OverpassAround lat lon := Response False body)) (lat, lon) zip' w
     = (Inr [], w\<lparr>requests := requests w @ [OverpassAround lat lon]\<rparr>)
   \<and> fst (renderSurrounding lib (net(OverpassAround lat lon := Rejected)) (lat, lon) zip' w)
     = Inl NetworkError
   \<and> fst (renderSurrounding lib (net(OverpassAround lat lon := Response True None)) (lat, lon)
            zip' w)
     = Inl SyntaxError
   \<and> fetchPerDiem (net(WorkerRates z (selectedYear w) := Rejected)) (JStr z) w
     = (Inr [], w\<lparr>requests := requests w @ [WorkerRates z (selectedYear w)]\<rparr>)
   \<and> status (searchSubmit drawsAll (austinNetwork noMatch gsaAnswer Rejected) ''Austin, TX''
               freshWorld)
     = \<lparr>message = MessageOf NetworkError, isError = True, isLoading = False\<rparr>
   \<and> status (searchSubmit drawsAll (austinNetwork noMatch gsaAnswer (Response True None))
               ''Austin, TX'' freshWorld)
     = \<lparr>message = MessageOf SyntaxError, isError = True, isLoading = False\<rparr>
   \<and> status (searchSubmit drawsAll (austinNetwork noMatch gsaAnswer unavailable) ''Austin, TX''
               freshWorld)
     = \<lparr>message = Text ''Click any shaded area to see its per diem rate.'',
        isError = False, isLoading = False\<rparr>"
proof -
  let ?ov = "OverpassAround lat lon"
  have f: "fetchSurroundingZips (net(?ov := Rejected)) (lat, lon) zip' w
             = (Inl NetworkError, w\<lparr>requests := requests w @ [?ov]\<rparr>)"
    "fetchSurroundingZips (net(?ov := Response True None)) (lat, lon) zip' w
             = (Inl SyntaxError, w\<lparr>requests := requests w @ [?ov]\<rparr>)"
    "fetchSurroundingZips (net(?ov := Response False body)) (lat, lon) zip' w
             = (Inr [], w\<lparr>requests := requests w @ [?ov]\<rparr>)"
    by (simp_all add: fetchSurroundingZips_eq surroundingResult_def json_def)
  have r: "fst (renderSurrounding lib (net(?ov := Rejected)) (lat, lon) zip' w) = Inl NetworkError"
    "fst (renderSurrounding lib (net(?ov := Response True None)) (lat, lon) zip' w)
       = Inl SyntaxError"
    by (simp_all add: renderSurrounding_eq Let_def surroundingResult_def json_def)
  have p: "fetchPerDiem (net(WorkerRates z (selectedYear w) := Rejected)) (JStr z) w
     = (Inr [], w\<lparr>requests := requests w @ [WorkerRates z (selectedYear w)]\<rparr>)"
    by (simp add: fetchPerDiem_eq[of "JStr z" z] ratesResult_def)
  have s1: "status (searchSubmit drawsAll (austinNetwork noMatch gsaAnswer Rejected) ''Austin, TX''
               freshWorld)
     = \<lparr>message = MessageOf NetworkError, isError = True, isLoading = False\<rparr>"
    by code_simp
  have s2: "status (searchSubmit drawsAll (austinNetwork noMatch gsaAnswer (Response True None))
               ''Austin, TX'' freshWorld)
     = \<lparr>message = MessageOf SyntaxError, isError = True, isLoading = False\<rparr>"
    by code_simp
  have s3: "status (searchSubmit drawsAll (austinNetwork noMatch gsaAnswer unavailable) ''Austin, TX''
               freshWorld)
     = \<lparr>message = Text ''Click any shaded area to see its per diem rate.'',
        isError = False, isLoading = False\<rparr>"
    by code_simp
  show ?thesis
    using f r p s1 s2 s3 by simp
qed

text \<open>
  Claim C7: for a postal code that is a text (any value that has a text), \<open>fetchPerDiem\<close>
  returns a list and throws nothing, whatever the rate service answers; the list is empty
  when the request fails, when the response is not a success and when its body is not
  JSON.
\<close>

theorem fetchPerDiem_never_raises:
  assumes "toStr zip' = Inr z"
  shows "(\<exists>qs. fetchPerDiem net zip' w =
            (Inr qs, w\<lparr>requests := requests w @ [WorkerRates z (selectedYear w)]\<rparr>))
         \<and> (net (WorkerRates z (selectedYear w)) = Rejected
              \<or> (\<exists>body. net (WorkerRates z (selectedYear w)) = Response False body)
              \<or> (\<exists>ok. net (WorkerRates z (selectedYear w)) = Response ok None) \<longrightarrow>
            fetchPerDiem net zip' w =
              (Inr [], w\<lparr>requests := requests w @ [WorkerRates z (selectedYear w)]\<rparr>))"
  using assms by (auto simp: fetchPerDiem_eq ratesResult_def)

theorem fetchPerDiem_never_raises_witness:
  "toStr (JStr ''78701'') = Inr ''78701''
   \<and> fetchPerDiem (austinNetwork noMatch gsaAnswer unavailable) (JStr ''78701'') freshWorld
       = (Inr [flatQuote], freshWorld\<lparr>requests := [WorkerRates ''78701'' ''2025'']\<rparr>)
   \<and> austinNetwork noMatch Rejected unavailable (WorkerRates ''78701'' (selectedYear freshWorld))
       = Rejected
   \<and> fetchPerDiem (austinNetwork noMatch Rejected unavailable) (JStr ''78701'') freshWorld
       = (Inr [], freshWorld\<lparr>requests := [WorkerRates ''78701'' ''2025'']\<rparr>)"
proof -
  have t: "toStr (JStr ''78701'') = Inr ''78701''" by simp
  have y: "selectedYear freshWorld = ''2025''" "requests freshWorld = []"
    by (simp_all add: selectedYear_def freshWorld_def)
  have ok: "fetchPerDiem (austinNetwork noMatch gsaAnswer unavailable) (JStr ''78701'') freshWorld
       = (Inr [flatQuote], freshWorld\<lparr>requests := [WorkerRates ''78701'' ''2025'']\<rparr>)"
    by code_simp
  from fetchPerDiem_never_raises[OF t, of "austinNetwork noMatch Rejected unavailable" freshWorld]
    ok y show ?thesis
    by simp
qed

text \<open>
  Claim C8 does not hold as it is written: a place whose address carries the postcode
  field with an empty text is looked up all the same, and gets the postcode of the
  lookup; the test of the script is the truthiness of the field, not its presence.
\<close>

theorem resolveZip_empty_postcode_counterexample:
  "getPropOpt emptyPostcodePlace ''address'' = JObj [(''postcode'', JStr [])]
   \<and> resolveZip (austinNetwork noMatch gsaAnswer unavailable) emptyPostcodePlace freshWorld
       = (Inr (JStr ''78701''), freshWorld\<lparr>requests := [ReverseLookup ''30.27'' ''-97.74'']\<rparr>)"
  by code_simp

text \<open>
  Claim C8, amended: for a place whose address carries a postcode that is not empty
  (truthy), \<open>resolveZip\<close> returns it and issues no request; for any other place it
  issues exactly one reverse lookup, and returns the postcode of the answer's address
  when the answer is a success that carries one, \<^verbatim>\<open>null\<close> when the answer carries none
  or is not a success.
\<close>

theorem resolveZip_postcode_or_one_lookup:
  assumes "\<not> isNullish place"
  shows "(truthy (postcodeOf place) \<longrightarrow> resolveZip net place w = (Inr (postcodeOf place), w))
     \<and> (\<not> truthy (postcodeOf place) \<and> toStr (getPropOpt place ''lat'') = Inr la
          \<and> toStr (getPropOpt place ''lon'') = Inr lo \<longrightarrow>
          requests (snd (resolveZip net place w)) = requests w @ [ReverseLookup la lo]
          \<and> (\<forall>ok data. net (ReverseLookup la lo) = Response ok (Some data) \<and> \<not> isNullish data \<longrightarrow>
                fst (resolveZip net place w) =
                  Inr (if ok \<and> truthy (postcodeOf data) then postcodeOf data else JNull))
          \<and> (\<forall>body. net (ReverseLookup la lo) = Response False body \<longrightarrow>
                fst (resolveZip net place w) = Inr JNull))"
  using assms
  by (auto simp: resolveZip_direct resolveZip_lookup reverseResult_def json_def getProp_cases
        postcodeOf_def orElse_def)

theorem resolveZip_postcode_or_one_lookup_witness:
  "\<not> isNullish austinPlace \<and> truthy (postcodeOf austinPlace)
   \<and> resolveZip (austinNetwork noMatch gsaAnswer unavailable) austinPlace freshWorld
       = (Inr (JStr ''78701''), freshWorld)
   \<and> \<not> isNullish barePlace \<and> \<not> truthy (postcodeOf barePlace)
   \<and> toStr (getPropOpt barePlace ''lat'') = Inr ''30.27''
   \<and> toStr (getPropOpt barePlace ''lon'') = Inr ''-97.74''
   \<and> requests (snd (resolveZip (austinNetwork noMatch gsaAnswer unavailable) barePlace freshWorld))
       = [ReverseLookup ''30.27'' ''-97.74'']
   \<and> fst (resolveZip (austinNetwork noMatch gsaAnswer unavailable) barePlace freshWorld)
       = Inr (JStr ''78701'')"
proof -
  have a: "\<not> isNullish austinPlace" "truthy (postcodeOf austinPlace)"
    "postcodeOf austinPlace = JStr ''78701''"
    by (simp_all add: austinPlace_def postcodeOf_def getPropOpt_def)
  have b: "\<not> isNullish barePlace" "\<not> truthy (postcodeOf barePlace)"
    "toStr (getPropOpt barePlace ''lat'') = Inr ''30.27''"
    "toStr (getPropOpt barePlace ''lon'') = Inr ''-97.74''"
    by (simp_all add: barePlace_def postcodeOf_def getPropOpt_def)
  have r: "requests freshWorld = []" by (simp add: freshWorld_def)
  have p: "postcodeOf (JObj [(''address'', JObj [(''postcode'', JStr ''78701'')])]) = JStr ''78701''"
    by (simp add: postcodeOf_def getPropOpt_def)
  from resolveZip_postcode_or_one_lookup[OF a(1),
         where net = "austinNetwork noMatch gsaAnswer unavailable" and w = freshWorld]
    resolveZip_postcode_or_one_lookup[OF b(1),
         where net = "austinNetwork noMatch gsaAnswer unavailable" and w = freshWorld
           and la = "''30.27''" and lo = "''-97.74''"]
    a b r p show ?thesis
    by auto
qed

text \<open>
  Claim C9: \<open>fetchZipBoundary\<close> throws its own error, \<^verbatim>\<open>Could not load boundary for
  the target Zip Code.\<close>, exactly when the boundary service answers with a response that
  is not a success; when the answer is a success whose first match is missing or has no
  geometry it returns \<^verbatim>\<open>null\<close>, and then \<open>drawTarget\<close>, and with it \<open>updateView\<close>,
  leaves a circle marker at the center as the target layer, whatever the map library does
  with a geometry.
\<close>

theorem fetchZipBoundary_error_iff_non_success:
  assumes "toStr zip' = Inr z"
  shows "(fst (fetchZipBoundary net zip' w)
            = Inl (Error ''Could not load boundary for the target Zip Code.''))
         = (\<exists>body. net (BoundarySearch z) = Response False body)
     \<and> (\<forall>data first. net (BoundarySearch z) = Response True (Some data)
            \<and> getIndex0 data = Inr first \<and> \<not> truthy (getPropOpt first ''geojson'') \<longrightarrow>
          fst (fetchZipBoundary net zip' w) = Inr JNull
          \<and> drawTarget lib JNull c zip' w
              = (Inr (), w\<lparr>targetLayer := Some \<lparr>shape = CircleMarker c, boundZip = zip'\<rparr>\<rparr>)
          \<and> (\<forall>l. toStr label = Inr l \<longrightarrow>
                targetLayer (snd (updateView lib net lat lon zip' label w))
                  = Some \<lparr>shape = CircleMarker (lat, lon), boundZip = zip'\<rparr>))"
proof -
  have iff: "(fst (fetchZipBoundary net zip' w)
            = Inl (Error ''Could not load boundary for the target Zip Code.''))
         = (\<exists>body. net (BoundarySearch z) = Response False body)"
  proof (cases "net (BoundarySearch z)")
    case Rejected
    then show ?thesis using assms by (simp add: fetchZipBoundary_eq boundaryResult_def)
  next
    case (Response ok body)
    have "bindE (getIndex0 data) (\<lambda>first. Inr (orElse (getPropOpt first ''geojson'') JNull))
               \<noteq> Inl (Error ''Could not load boundary for the target Zip Code.'')" for data
      by (cases data) simp_all
    with Response show ?thesis using assms
      by (auto simp: fetchZipBoundary_eq boundaryResult_def json_def split: option.splits)
  qed
  have absent: "fst (fetchZipBoundary net zip' w) = Inr JNull
          \<and> drawTarget lib JNull c zip' w
              = (Inr (), w\<lparr>targetLayer := Some \<lparr>shape = CircleMarker c, boundZip = zip'\<rparr>\<rparr>)
          \<and> (\<forall>l. toStr label = Inr l \<longrightarrow>
                targetLayer (snd (updateView lib net lat lon zip' label w))
                  = Some \<lparr>shape = CircleMarker (lat, lon), boundZip = zip'\<rparr>)"
    if n: "net (BoundarySearch z) = Response True (Some data)"
      and i: "getIndex0 data = Inr first" and g: "\<not> truthy (getPropOpt first ''geojson'')"
    for data first
  proof -
    have b: "boundaryResult (net (BoundarySearch z)) = Inr JNull"
      using n i g by (simp add: boundaryResult_def json_def orElse_def)
    have 1: "fst (fetchZipBoundary net zip' w) = Inr JNull"
      using assms b by (simp add: fetchZipBoundary_eq)
    have 2: "drawTarget lib JNull c zip' w
              = (Inr (), w\<lparr>targetLayer := Some \<lparr>shape = CircleMarker c, boundZip = zip'\<rparr>\<rparr>)"
      by (simp add: drawTarget_marker)
    have 3: "targetLayer (snd (updateView lib net lat lon zip' label w))
                  = Some \<lparr>shape = CircleMarker (lat, lon), boundZip = zip'\<rparr>"
      if l: "toStr label = Inr l" for l
    proof -
      have m: "centeringMessage label zip'
                 = Inr (''Centering map on '' @ l @ '' (Zip '' @ z @ '')...'')"
        using l assms by (simp add: centeringMessage_def)
      show ?thesis
        using updateView_target[of label zip' _ z net JNull lib lat lon w, OF m assms b]
        by simp
    qed
    show ?thesis using 1 2 3 by blast
  qed
  show ?thesis using iff absent by blast
qed

theorem fetchZipBoundary_error_iff_non_success_witness:
  "toStr (JStr ''78701'') = Inr ''78701''
   \<and> fst (fetchZipBoundary (austinNetwork unavailable gsaAnswer unavailable) (JStr ''78701'')
            freshWorld)
       = Inl (Error ''Could not load boundary for the target Zip Code.'')
   \<and> austinNetwork noMatch gsaAnswer unavailable (BoundarySearch ''78701'')
       = Response True (Some (JArr []))
   \<and> getIndex0 (JArr []) = Inr JUndefined \<and> \<not> truthy (getPropOpt JUndefined ''geojson'')
   \<and> fst (fetchZipBoundary (austinNetwork noMatch gsaAnswer unavailable) (JStr ''78701'')
            freshWorld) = Inr JNull
   \<and> toStr (JStr ''Austin, Texas'') = Inr ''Austin, Texas''
   \<and> targetLayer (snd (updateView drawsAll (austinNetwork noMatch gsaAnswer unavailable)
                          (ParseFloat ''30.27'') (ParseFloat ''-97.74'') (JStr ''78701'')
                          (JStr ''Austin, Texas'') freshWorld))
       = Some \<lparr>shape = CircleMarker (ParseFloat ''30.27'', ParseFloat ''-97.74''),
               boundZip = JStr ''78701''\<rparr>"
proof -
  have t: "toStr (JStr ''78701'') = Inr ''78701''" by simp
  have n: "austinNetwork unavailable gsaAnswer unavailable (BoundarySearch ''78701'')
             = Response False None"
    "austinNetwork noMatch gsaAnswer unavailable (BoundarySearch ''78701'')
       = Response True (Some (JArr []))"
    by (simp_all add: unavailable_def noMatch_def)
  have g: "getIndex0 (JArr []) = Inr JUndefined" "\<not> truthy (getPropOpt JUndefined ''geojson'')"
    by (simp_all add: getPropOpt_def)
  from fetchZipBoundary_error_iff_non_success[OF t,
         where net = "austinNetwork unavailable gsaAnswer unavailable" and w = freshWorld]
    fetchZipBoundary_error_iff_non_success[OF t,
         where net = "austinNetwork noMatch gsaAnswer unavailable" and w = freshWorld
           and label = "JStr ''Austin, Texas''" and lat = "ParseFloat ''30.27''"
           and lon = "ParseFloat ''-97.74''" and lib = drawsAll]
    n g show ?thesis
    by (simp add: unavailable_def noMatch_def)
qed

text \<open>
  Claim C10: for a zone without GeoJSON whose geometry is \<^verbatim>\<open>null\<close>, missing or the empty
  list, \<open>toLeafletShape\<close> returns \<^verbatim>\<open>null\<close>; the loop of \<open>renderSurrounding\<close> passes it
  over, wherever it stands among the zones; and no layer that \<open>renderSurrounding\<close> adds
  is bound to its postal code, so that no click looks up its rates.
\<close>

theorem shapeless_zone_not_drawn:
  assumes "\<not> truthy (geojson z)" and "isNullish (geometry z) \<or> geometry z = JArr []"
  shows "toLeafletShape lib z = Inr None
    \<and> attachNeighbors lib (pre @ z # post) w = attachNeighbors lib (pre @ post) w
    \<and> (\<forall>net c targetZip zones w'.
          fetchSurroundingZips net c targetZip w = (Inr zones, w') \<and> z \<in> set zones
          \<and> isPrimitive (postalCode z) \<longrightarrow>
          (\<exists>new. surroundingLayer (snd (renderSurrounding lib net c targetZip w))
                   = surroundingLayer w @ new
             \<and> (\<forall>layer\<in>set new. boundZip layer \<noteq> postalCode z)))"
proof -
  have none: "toLeafletShape lib z = Inr None"
    using assms by (cases "geometry z") (auto simp: toLeafletShape_def)
  have skip: "attachNeighbors lib (pre @ z # post) w = attachNeighbors lib (pre @ post) w"
    by (simp add: attachNeighbors_append none)
  have drawn: "\<exists>new. surroundingLayer (snd (renderSurrounding lib net c targetZip w))
                   = surroundingLayer w @ new
             \<and> (\<forall>layer\<in>set new. boundZip layer \<noteq> postalCode z)"
    if f: "fetchSurroundingZips net c targetZip w = (Inr zones, w')" and z: "z \<in> set zones"
      and p: "isPrimitive (postalCode z)" for net c targetZip zones w'
  proof -
    let ?w = "(updateStatus (Text ''Loading surrounding Zip Codes...'') False True w)
                 \<lparr>requests := requests w @ [OverpassAround (fst c) (snd c)]\<rparr>"
    from f have res: "surroundingResult (net (OverpassAround (fst c) (snd c))) targetZip = Inr zones"
      by (simp add: fetchSurroundingZips_eq)
    from z have ne: "zones \<noteq> []" by auto
    have r: "snd (renderSurrounding lib net c targetZip w) = attachNeighbors lib zones ?w"
      using res ne by (simp add: renderSurrounding_eq Let_def)
    from attachNeighbors_layers[of lib zones ?w] obtain new where
      n: "surroundingLayer (attachNeighbors lib zones ?w) = surroundingLayer ?w @ new"
      "\<forall>layer\<in>set new. \<exists>z'\<in>set zones. boundZip layer = postalCode z'
            \<and> toLeafletShape lib z' = Inr (Some (shape layer))" by blast
    have d: "distinct (filter isPrimitive (map postalCode zones))"
      using fetchSurroundingZips_distinct[OF f] .
    have "boundZip layer \<noteq> postalCode z" if l: "layer \<in> set new" for layer
    proof
      assume eq: "boundZip layer = postalCode z"
      from n(2) l obtain z' where z': "z' \<in> set zones" "boundZip layer = postalCode z'"
        "toLeafletShape lib z' = Inr (Some (shape layer))" by blast
      have "z = z'"
        using distinct_filter_map_inj[OF d z z'(1) p] eq z'(2) by simp
      with z'(3) none show False by simp
    qed
    with n(1) r show ?thesis by simp
  qed
  show ?thesis using none skip drawn by blast
qed

theorem shapeless_zone_not_drawn_witness:
  "\<not> truthy (geojson zone78703) \<and> geometry zone78703 = JArr []
   \<and> toLeafletShape drawsAll zone78703 = Inr None
   \<and> attachNeighbors drawsAll [zone78702, zone78703] freshWorld
       = attachNeighbors drawsAll [zone78702] freshWorld
   \<and> surroundingLayer
        (snd (renderSurrounding drawsAll
                (austinNetwork noMatch gsaAnswer (Response True (Some austinElements)))
                austinCenter (JStr ''78701'') freshWorld))
       = [\<lparr>shape = Polygon [(JNum (Fin 30), JNum (Fin (-97)))], boundZip = JStr ''78702''\<rparr>]"
proof -
  have h: "\<not> truthy (geojson zone78703)" "geometry zone78703 = JArr []"
    by (simp_all add: zone78703_def)
  then have h2: "isNullish (geometry zone78703) \<or> geometry zone78703 = JArr []" by simp
  have r: "surroundingLayer
        (snd (renderSurrounding drawsAll
                (austinNetwork noMatch gsaAnswer (Response True (Some austinElements)))
                austinCenter (JStr ''78701'') freshWorld))
       = [\<lparr>shape = Polygon [(JNum (Fin 30), JNum (Fin (-97)))], boundZip = JStr ''78702''\<rparr>]"
    by code_simp
  from shapeless_zone_not_drawn[OF h(1) h2, of drawsAll "[zone78702]" "[]" freshWorld] h r
  show ?thesis by simp
qed

end
